theory Spec2Isabelle
  imports Complex_Main
begin

section \<open>The document store\<close>

text \<open>
  The program keeps its data in collections of a document store and reads them with
  \<^verbatim>\<open>find_one\<close>, \<^verbatim>\<open>count_documents\<close>, \<^verbatim>\<open>delete_many\<close>, \<^verbatim>\<open>insert_one\<close> and
  \<^verbatim>\<open>update_one\<close>. A collection is the list of its documents in natural order, or it is
  unreachable, and then every operation on it raises. Documents have the fields of the
  classes of \<^verbatim>\<open>models.py\<close>; a field declared \<^verbatim>\<open>Optional\<close> is an option.

  Amounts are Python floats; they are modelled as real numbers, so rounding, infinities
  and NaN are outside this development. An instant is counted in microseconds, and every
  operation reads the clock once: the instant \<open>now\<close> it is given.
\<close>

type_synonym datetime = int

datatype error = StoreFault | TypeError

text \<open>
  A Python \<^verbatim>\<open>datetime\<close> object is aware (it carries a time zone) or naive. The clock
  reading \<^verbatim>\<open>datetime.now(timezone.utc)\<close> is aware. The client of server.py is created
  without \<^verbatim>\<open>tz_aware\<close>, so a date read from a document is naive. Python orders two
  aware or two naive values by their instants and raises \<^verbatim>\<open>TypeError\<close> when one is
  aware and the other naive.
\<close>

datatype py_datetime = Aware datetime | Naive datetime

fun datetime_less :: "py_datetime \<Rightarrow> py_datetime \<Rightarrow> error + bool" where
  "datetime_less (Aware a) (Aware b) = Inr (a < b)"
| "datetime_less (Naive a) (Naive b) = Inr (a < b)"
| "datetime_less (Aware a) (Naive b) = Inl TypeError"
| "datetime_less (Naive a) (Aware b) = Inl TypeError"

datatype 'd collection = Collection "'d list" | Unreachable

text \<open>
  A filter is a Python dict literal: its items as written, a key and the condition the
  key puts on a document. A key written twice keeps its last value, as a dict literal
  does; a document matches when it meets the condition of every key of the dict.
\<close>

type_synonym 'd query = "(string \<times> ('d \<Rightarrow> bool)) list"

fun dict_literal :: "(string \<times> 'v) list \<Rightarrow> (string \<times> 'v) list" where
  "dict_literal [] = []"
| "dict_literal (kv # kvs) =
     (if fst kv \<in> set (map fst kvs) then dict_literal kvs else kv # dict_literal kvs)"

definition matches :: "'d query \<Rightarrow> 'd \<Rightarrow> bool" where
  "matches q d = list_all (\<lambda>kv. snd kv d) (dict_literal q)"

definition find_one :: "'d collection \<Rightarrow> 'd query \<Rightarrow> error + 'd option" where
  "find_one c q = (case c of Unreachable \<Rightarrow> Inl StoreFault
                   | Collection ds \<Rightarrow> Inr (find (matches q) ds))"

definition count_documents :: "'d collection \<Rightarrow> 'd query \<Rightarrow> error + int" where
  "count_documents c q = (case c of Unreachable \<Rightarrow> Inl StoreFault
                          | Collection ds \<Rightarrow> Inr (int (length (filter (matches q) ds))))"

section \<open>Documents of server.py\<close>

datatype coupon_type = Percentage | Fixed | Bogo | Free_shipping

datatype coupon_scope = Global | Category | Product | Seller

record coupon =
  coupon_id :: string
  code :: string
  coupon_type :: coupon_type
  coupon_value :: real
  scope :: coupon_scope
  scope_value :: "string option"
  min_order_amount :: "real option"
  max_discount :: "real option"
  usage_limit :: "int option"
  usage_per_user :: "int option"
  used_count :: int
  starts_at :: "py_datetime option"
  expires_at :: "py_datetime option"
  is_active :: bool

record coupon_usage =
  usage_coupon_id :: string
  usage_user_id :: string

record product =
  product_id :: string
  category :: "string option"
  seller_id :: "string option"

record cart_item =
  item_product_id :: string
  quantity :: int
  price :: real

record commission_rule =
  rule_category :: "string option"
  commission_rate :: real
  min_order_value :: "real option"
  max_order_value :: "real option"
  rule_is_active :: bool

text \<open>
  A seller profile is read with \<^verbatim>\<open>seller.get("commission_rate", 10.0)\<close>: the field is
  \<open>None\<close> when the document has no such key.
\<close>

record seller_profile =
  seller_user_id :: string
  seller_commission_rate :: "real option"

record store =
  coupons_collection :: "coupon collection"
  coupon_usage_collection :: "coupon_usage collection"
  products_collection :: "product collection"
  commission_rules_collection :: "commission_rule collection"
  seller_profiles_collection :: "seller_profile collection"

section \<open>calculate_commission\<close>

text \<open>
  The filter of the first lookup, item by item as the source writes it. The key
  \<^verbatim>\<open>"$or"\<close> is written twice in the literal.
\<close>

definition category_rule_query :: "real \<Rightarrow> string \<Rightarrow> commission_rule query" where
  "category_rule_query order_total cat =
     [(''category'', \<lambda>r. rule_category r = Some cat),
      (''is_active'', \<lambda>r. rule_is_active r = True),
      (''$or'', \<lambda>r. (case min_order_value r of Some m \<Rightarrow> m \<le> order_total | None \<Rightarrow> False)
                     \<or> min_order_value r = None),
      (''$or'', \<lambda>r. (case max_order_value r of Some m \<Rightarrow> m \<ge> order_total | None \<Rightarrow> False)
                     \<or> max_order_value r = None)]"

definition default_rule_query :: "commission_rule query" where
  "default_rule_query =
     [(''category'', \<lambda>r. rule_category r = None),
      (''is_active'', \<lambda>r. rule_is_active r = True)]"

definition seller_query :: "string \<Rightarrow> seller_profile query" where
  "seller_query sid = [(''user_id'', \<lambda>s. seller_user_id s = sid)]"

text \<open>The body of the \<^verbatim>\<open>try\<close> block: \<open>Inl\<close> is an exception raised inside it.\<close>

definition calculate_commission_body ::
  "store \<Rightarrow> real \<Rightarrow> string \<Rightarrow> string option \<Rightarrow> error + (real \<times> real)" where
  "calculate_commission_body db order_total sid cat =
     (case (case cat of
              Some c \<Rightarrow> (if c \<noteq> [] then find_one (commission_rules_collection db)
                                           (category_rule_query order_total c)
                        else Inr None)
            | None \<Rightarrow> Inr None) of
        Inl e \<Rightarrow> Inl e
      | Inr rule1 \<Rightarrow>
          (case (case rule1 of
                   None \<Rightarrow> find_one (commission_rules_collection db) default_rule_query
                 | Some r \<Rightarrow> Inr (Some r)) of
             Inl e \<Rightarrow> Inl e
           | Inr None \<Rightarrow>
               (case find_one (seller_profiles_collection db) (seller_query sid) of
                  Inl e \<Rightarrow> Inl e
                | Inr seller \<Rightarrow>
                    (let rate = (case seller of
                                   Some s \<Rightarrow> (case seller_commission_rate s of
                                                Some x \<Rightarrow> x | None \<Rightarrow> 10)
                                 | None \<Rightarrow> 10)
                     in Inr (rate, order_total * (rate / 100))))
           | Inr (Some r) \<Rightarrow>
               (let rate = commission_rate r
                in Inr (rate, order_total * (rate / 100)))))"

definition calculate_commission :: "store \<Rightarrow> real \<Rightarrow> string \<Rightarrow> string option \<Rightarrow> real \<times> real" where
  "calculate_commission db order_total sid cat =
     (case calculate_commission_body db order_total sid cat of
        Inl e \<Rightarrow> (10, order_total * 0.1)
      | Inr res \<Rightarrow> res)"

section \<open>apply_coupon\<close>

text \<open>
  The second component of the result is the message. All messages are fixed strings but
  one: \<open>Minimum_order_msg m\<close> stands for the formatted string
  \<^verbatim>\<open>f"Minimum order amount ${m:.2f} required"\<close>.
\<close>

datatype message = Msg string | Minimum_order_msg real

text \<open>A check either declines the coupon with a message or lets the evaluation go on.\<close>

datatype 'a check = Declined message | Passed 'a

definition coupon_query :: "string \<Rightarrow> coupon query" where
  "coupon_query coupon_code =
     [(''code'', \<lambda>c. code c = coupon_code),
      (''is_active'', \<lambda>c. is_active c = True)]"

definition usage_query :: "string \<Rightarrow> string \<Rightarrow> coupon_usage query" where
  "usage_query cid uid =
     [(''coupon_id'', \<lambda>u. usage_coupon_id u = cid),
      (''user_id'', \<lambda>u. usage_user_id u = uid)]"

definition product_query :: "string \<Rightarrow> product query" where
  "product_query pid = [(''id'', \<lambda>p. product_id p = pid)]"

text \<open>
  The checks between the lookup of the coupon and the scope check (lines 185 to 208), in
  the order of the source. A test \<^verbatim>\<open>coupon.get("k") and ...\<close> is Python truthiness: it
  fails when the field is \<open>None\<close> and also when it is the number 0; \<^verbatim>\<open>if user_id\<close>
  fails on \<open>None\<close> and on the empty string. A date is always truthy, so a date that is
  set is compared with the clock reading; \<^verbatim>\<open>now > e\<close> is \<open>datetime_less e now\<close>.
\<close>

definition early_checks ::
  "store \<Rightarrow> datetime \<Rightarrow> real \<Rightarrow> string option \<Rightarrow> coupon \<Rightarrow> error + unit check" where
  "early_checks db now cart_total user_id coupon =
     (case (case starts_at coupon of
              Some s \<Rightarrow> datetime_less (Aware now) s | None \<Rightarrow> Inr False) of
        Inl e \<Rightarrow> Inl e
      | Inr True \<Rightarrow> Inr (Declined (Msg ''Coupon is not yet active''))
      | Inr False \<Rightarrow>
     (case (case expires_at coupon of
              Some x \<Rightarrow> datetime_less x (Aware now) | None \<Rightarrow> Inr False) of
        Inl e \<Rightarrow> Inl e
      | Inr True \<Rightarrow> Inr (Declined (Msg ''Coupon has expired''))
      | Inr False \<Rightarrow>
     (if (case usage_limit coupon of
                 Some l \<Rightarrow> l \<noteq> 0 \<and> used_count coupon \<ge> l | None \<Rightarrow> False)
      then Inr (Declined (Msg ''Coupon usage limit exceeded''))
      else
        (case (case (user_id, usage_per_user coupon) of
                 (Some u, Some l) \<Rightarrow>
                   (if u \<noteq> [] \<and> l \<noteq> 0
                    then (case count_documents (coupon_usage_collection db)
                                 (usage_query (coupon_id coupon) u) of
                            Inl e \<Rightarrow> Inl e
                          | Inr user_usage \<Rightarrow> Inr (user_usage \<ge> l))
                    else Inr False)
               | _ \<Rightarrow> Inr False) of
           Inl e \<Rightarrow> Inl e
         | Inr True \<Rightarrow>
             Inr (Declined (Msg ''You have reached the usage limit for this coupon''))
         | Inr False \<Rightarrow>
             (case min_order_amount coupon of
                Some m \<Rightarrow>
                  (if m \<noteq> 0 \<and> cart_total < m
                   then Inr (Declined (Minimum_order_msg m))
                   else Inr (Passed ()))
              | None \<Rightarrow> Inr (Passed ()))))))"

text \<open>The test of one product against the scope of the coupon (lines 220 to 226).\<close>

definition item_eligible :: "coupon \<Rightarrow> product \<Rightarrow> bool" where
  "item_eligible coupon product =
     (if scope coupon = Category \<and> category product = scope_value coupon then True
      else if scope coupon = Product \<and> Some (product_id product) = scope_value coupon then True
      else if scope coupon = Seller \<and> seller_id product = scope_value coupon then True
      else False)"

text \<open>
  The loop over the cart items (lines 215 to 230), with its two variables
  \<^verbatim>\<open>scope_valid\<close> and \<^verbatim>\<open>eligible_total\<close> as accumulators.
\<close>

fun scope_loop ::
  "product collection \<Rightarrow> coupon \<Rightarrow> cart_item list \<Rightarrow> bool \<Rightarrow> real \<Rightarrow> error + (bool \<times> real)" where
  "scope_loop products coupon [] scope_valid eligible_total =
     Inr (scope_valid, eligible_total)"
| "scope_loop products coupon (item # items) scope_valid eligible_total =
     (case find_one products (product_query (item_product_id item)) of
        Inl e \<Rightarrow> Inl e
      | Inr None \<Rightarrow> scope_loop products coupon items scope_valid eligible_total
      | Inr (Some product) \<Rightarrow>
          (if item_eligible coupon product
           then scope_loop products coupon items True
                  (eligible_total + real_of_int (quantity item) * price item)
           else scope_loop products coupon items scope_valid eligible_total))"

text \<open>
  The scope check (lines 211 to 237): it is entered when the scope is not global and
  \<^verbatim>\<open>cart_items\<close> is truthy, that is neither \<open>None\<close> nor the empty list. It passes on the
  total that the discount is computed from.
\<close>

definition scope_check ::
  "product collection \<Rightarrow> coupon \<Rightarrow> real \<Rightarrow> cart_item list option \<Rightarrow> error + real check" where
  "scope_check products coupon cart_total cart_items =
     (case cart_items of
        None \<Rightarrow> Inr (Passed cart_total)
      | Some items \<Rightarrow>
          (if scope coupon \<noteq> Global \<and> items \<noteq> []
           then (case scope_loop products coupon items False 0 of
                   Inl e \<Rightarrow> Inl e
                 | Inr (scope_valid, eligible_total) \<Rightarrow>
                     (if \<not> scope_valid
                      then Inr (Declined (Msg ''Coupon is not applicable to items in your cart''))
                      else if eligible_total > 0 then Inr (Passed eligible_total)
                      else Inr (Passed cart_total)))
           else Inr (Passed cart_total)))"

text \<open>The discount by coupon type and its final cap (lines 240 to 253).\<close>

definition discount_of :: "coupon \<Rightarrow> real \<Rightarrow> real" where
  "discount_of coupon cart_total =
     (let discount =
        (case coupon_type coupon of
           Percentage \<Rightarrow>
             (let discount = cart_total * (coupon_value coupon / 100)
              in (case max_discount coupon of
                    Some m \<Rightarrow> (if m \<noteq> 0 then min discount m else discount)
                  | None \<Rightarrow> discount))
         | Fixed \<Rightarrow> coupon_value coupon
         | Free_shipping \<Rightarrow> 10
         | Bogo \<Rightarrow> cart_total * 0.5)
      in min discount cart_total)"

text \<open>The body of the \<^verbatim>\<open>try\<close> block: \<open>Inl\<close> is an exception raised inside it.\<close>

definition apply_coupon_body ::
  "store \<Rightarrow> datetime \<Rightarrow> real \<Rightarrow> string \<Rightarrow> string option \<Rightarrow> cart_item list option
     \<Rightarrow> error + (real \<times> message)" where
  "apply_coupon_body db now cart_total coupon_code user_id cart_items =
     (case find_one (coupons_collection db) (coupon_query coupon_code) of
        Inl e \<Rightarrow> Inl e
      | Inr None \<Rightarrow> Inr (0, Msg ''Invalid coupon code'')
      | Inr (Some coupon) \<Rightarrow>
          (case early_checks db now cart_total user_id coupon of
             Inl e \<Rightarrow> Inl e
           | Inr (Declined m) \<Rightarrow> Inr (0, m)
           | Inr (Passed _) \<Rightarrow>
               (case scope_check (products_collection db) coupon cart_total cart_items of
                  Inl e \<Rightarrow> Inl e
                | Inr (Declined m) \<Rightarrow> Inr (0, m)
                | Inr (Passed cart_total') \<Rightarrow>
                    Inr (discount_of coupon cart_total', Msg ''Coupon applied successfully''))))"

definition apply_coupon ::
  "store \<Rightarrow> datetime \<Rightarrow> real \<Rightarrow> string \<Rightarrow> string option \<Rightarrow> cart_item list option
     \<Rightarrow> real \<times> message" where
  "apply_coupon db now cart_total coupon_code user_id cart_items =
     (case apply_coupon_body db now cart_total coupon_code user_id cart_items of
        Inl e \<Rightarrow> (0, Msg ''Error applying coupon'')
      | Inr res \<Rightarrow> res)"

section \<open>verification_service.py\<close>

text \<open>
  A document of the collection \<^verbatim>\<open>verification_codes\<close>. The store gives every inserted
  document its \<^verbatim>\<open>_id\<close>, here \<open>record_id\<close>, different from the \<^verbatim>\<open>_id\<close> of every
  document of the collection. \<^verbatim>\<open>verified_at\<close> is \<open>None\<close> while the document has no such
  key.
\<close>

record verification_record =
  record_id :: nat
  record_identifier :: string
  hashed_code :: string
  delivery_method :: string
  purpose :: string
  created_at :: datetime
  code_expires_at :: datetime
  verified :: bool
  verified_at :: "datetime option"
  attempts :: int

definition delete_many :: "'d collection \<Rightarrow> 'd query \<Rightarrow> error + 'd collection" where
  "delete_many c q = (case c of Unreachable \<Rightarrow> Inl StoreFault
                      | Collection ds \<Rightarrow> Inr (Collection (filter (\<lambda>d. \<not> matches q d) ds)))"

definition fresh_id :: "verification_record list \<Rightarrow> nat" where
  "fresh_id ds = Suc (foldr max (map record_id ds) 0)"

definition insert_one ::
  "verification_record collection \<Rightarrow> verification_record \<Rightarrow> error + verification_record collection" where
  "insert_one c d = (case c of Unreachable \<Rightarrow> Inl StoreFault
                     | Collection ds \<Rightarrow> Inr (Collection (ds @ [d\<lparr>record_id := fresh_id ds\<rparr>])))"

text \<open>\<^verbatim>\<open>update_one\<close> changes the first document that matches the filter, if there is one.\<close>

fun update_first :: "('d \<Rightarrow> bool) \<Rightarrow> ('d \<Rightarrow> 'd) \<Rightarrow> 'd list \<Rightarrow> 'd list" where
  "update_first P f [] = []"
| "update_first P f (d # ds) = (if P d then f d # ds else d # update_first P f ds)"

definition update_one :: "'d collection \<Rightarrow> 'd query \<Rightarrow> ('d \<Rightarrow> 'd) \<Rightarrow> error + 'd collection" where
  "update_one c q f = (case c of Unreachable \<Rightarrow> Inl StoreFault
                       | Collection ds \<Rightarrow> Inr (Collection (update_first (matches q) f ds)))"

definition timedelta_minutes :: "int \<Rightarrow> int" where
  "timedelta_minutes n = n * 60000000"

definition pair_query :: "string \<Rightarrow> string \<Rightarrow> verification_record query" where
  "pair_query ident purp =
     [(''identifier'', \<lambda>r. record_identifier r = ident),
      (''purpose'', \<lambda>r. purpose r = purp)]"

definition live_code_query ::
  "string \<Rightarrow> string \<Rightarrow> string \<Rightarrow> datetime \<Rightarrow> verification_record query" where
  "live_code_query ident hashed purp now =
     [(''identifier'', \<lambda>r. record_identifier r = ident),
      (''hashed_code'', \<lambda>r. hashed_code r = hashed),
      (''purpose'', \<lambda>r. purpose r = purp),
      (''verified'', \<lambda>r. verified r = False),
      (''expires_at'', \<lambda>r. code_expires_at r > now)]"

definition id_query :: "nat \<Rightarrow> verification_record query" where
  "id_query n = [(''_id'', \<lambda>r. record_id r = n)]"

text \<open>
  \<^verbatim>\<open>hashlib.sha256(code.encode()).hexdigest()\<close> is a library function; the operations take
  it as the parameter \<open>sha256\<close>. Each operation takes the collection and returns its
  flag with the collection it leaves.
\<close>

definition store_verification_code_body ::
  "(string \<Rightarrow> string) \<Rightarrow> datetime \<Rightarrow> verification_record collection
     \<Rightarrow> string \<Rightarrow> string \<Rightarrow> string \<Rightarrow> string \<Rightarrow> error + verification_record collection" where
  "store_verification_code_body sha256 now c ident code_str meth purp =
     (let hashed = sha256 code_str
      in case delete_many c (pair_query ident purp) of
           Inl e \<Rightarrow> Inl e
         | Inr c1 \<Rightarrow>
             insert_one c1
               \<lparr>record_id = 0, record_identifier = ident, hashed_code = hashed,
                delivery_method = meth, purpose = purp, created_at = now,
                code_expires_at = now + timedelta_minutes 10,
                verified = False, verified_at = None, attempts = 0\<rparr>)"

definition store_verification_code ::
  "(string \<Rightarrow> string) \<Rightarrow> datetime \<Rightarrow> verification_record collection
     \<Rightarrow> string \<Rightarrow> string \<Rightarrow> string \<Rightarrow> string \<Rightarrow> bool \<times> verification_record collection" where
  "store_verification_code sha256 now c ident code_str meth purp =
     (case store_verification_code_body sha256 now c ident code_str meth purp of
        Inl e \<Rightarrow> (False, c)
      | Inr c' \<Rightarrow> (True, c'))"

definition verify_code_body ::
  "(string \<Rightarrow> string) \<Rightarrow> datetime \<Rightarrow> verification_record collection
     \<Rightarrow> string \<Rightarrow> string \<Rightarrow> string \<Rightarrow> error + (bool \<times> verification_record collection)" where
  "verify_code_body sha256 now c ident code_str purp =
     (let hashed = sha256 code_str
      in case find_one c (live_code_query ident hashed purp now) of
           Inl e \<Rightarrow> Inl e
         | Inr None \<Rightarrow>
             (case update_one c (pair_query ident purp)
                     (\<lambda>r. r\<lparr>attempts := attempts r + 1\<rparr>) of
                Inl e \<Rightarrow> Inl e
              | Inr c' \<Rightarrow> Inr (False, c'))
         | Inr (Some rec) \<Rightarrow>
             (case update_one c (id_query (record_id rec))
                     (\<lambda>r. r\<lparr>verified := True, verified_at := Some now\<rparr>) of
                Inl e \<Rightarrow> Inl e
              | Inr c' \<Rightarrow> Inr (True, c')))"

definition verify_code ::
  "(string \<Rightarrow> string) \<Rightarrow> datetime \<Rightarrow> verification_record collection
     \<Rightarrow> string \<Rightarrow> string \<Rightarrow> string \<Rightarrow> bool \<times> verification_record collection" where
  "verify_code sha256 now c ident code_str purp =
     (case verify_code_body sha256 now c ident code_str purp of
        Inl e \<Rightarrow> (False, c)
      | Inr res \<Rightarrow> res)"

section \<open>Notions of the specification\<close>

text \<open>
  A cart item matches the scope of a coupon when its product is found in the catalogue and
  passes \<open>item_eligible\<close>. The eligible subtotal is the sum of quantity times price over
  the matching items.
\<close>

definition item_matches :: "product list \<Rightarrow> coupon \<Rightarrow> cart_item \<Rightarrow> bool" where
  "item_matches ps coupon item =
     (case find (\<lambda>p. product_id p = item_product_id item) ps of
        None \<Rightarrow> False
      | Some p \<Rightarrow> item_eligible coupon p)"

definition eligible_subtotal :: "product list \<Rightarrow> coupon \<Rightarrow> cart_item list \<Rightarrow> real" where
  "eligible_subtotal ps coupon items =
     sum_list (map (\<lambda>i. real_of_int (quantity i) * price i)
                   (filter (item_matches ps coupon) items))"

text \<open>
  The early checks in two parts, for the proofs: the two tests of dates (lines 185 to
  191), and the checks after them (lines 193 to 208).
\<close>

definition date_checks :: "datetime \<Rightarrow> coupon \<Rightarrow> error + unit check" where
  "date_checks now coupon =
     (case (case starts_at coupon of
              Some s \<Rightarrow> datetime_less (Aware now) s | None \<Rightarrow> Inr False) of
        Inl e \<Rightarrow> Inl e
      | Inr True \<Rightarrow> Inr (Declined (Msg ''Coupon is not yet active''))
      | Inr False \<Rightarrow>
          (case (case expires_at coupon of
                   Some x \<Rightarrow> datetime_less x (Aware now) | None \<Rightarrow> Inr False) of
             Inl e \<Rightarrow> Inl e
           | Inr True \<Rightarrow> Inr (Declined (Msg ''Coupon has expired''))
           | Inr False \<Rightarrow> Inr (Passed ())))"

definition later_checks :: "store \<Rightarrow> real \<Rightarrow> string option \<Rightarrow> coupon \<Rightarrow> error + unit check" where
  "later_checks db cart_total user_id coupon =
     (if (case usage_limit coupon of
            Some l \<Rightarrow> l \<noteq> 0 \<and> used_count coupon \<ge> l | None \<Rightarrow> False)
      then Inr (Declined (Msg ''Coupon usage limit exceeded''))
      else
        (case (case (user_id, usage_per_user coupon) of
                 (Some u, Some l) \<Rightarrow>
                   (if u \<noteq> [] \<and> l \<noteq> 0
                    then (case count_documents (coupon_usage_collection db)
                                 (usage_query (coupon_id coupon) u) of
                            Inl e \<Rightarrow> Inl e
                          | Inr user_usage \<Rightarrow> Inr (user_usage \<ge> l))
                    else Inr False)
               | _ \<Rightarrow> Inr False) of
           Inl e \<Rightarrow> Inl e
         | Inr True \<Rightarrow>
             Inr (Declined (Msg ''You have reached the usage limit for this coupon''))
         | Inr False \<Rightarrow>
             (case min_order_amount coupon of
                Some m \<Rightarrow>
                  (if m \<noteq> 0 \<and> cart_total < m
                   then Inr (Declined (Minimum_order_msg m))
                   else Inr (Passed ()))
              | None \<Rightarrow> Inr (Passed ()))))"

section \<open>Example data\<close>

definition base_coupon :: coupon where
  "base_coupon =
     \<lparr>coupon_id = ''c-1'', code = ''SAVE'', coupon_type = Fixed, coupon_value = 5,
      scope = Global, scope_value = None, min_order_amount = None, max_discount = None,
      usage_limit = None, usage_per_user = None, used_count = 0, starts_at = None,
      expires_at = None, is_active = True\<rparr>"

definition example_store :: "coupon list \<Rightarrow> coupon_usage list \<Rightarrow> product list \<Rightarrow> store" where
  "example_store cs us ps =
     \<lparr>coupons_collection = Collection cs, coupon_usage_collection = Collection us,
      products_collection = Collection ps, commission_rules_collection = Collection [],
      seller_profiles_collection = Collection []\<rparr>"

definition books_coupon :: coupon where
  "books_coupon = base_coupon\<lparr>scope := Category, scope_value := Some ''books''\<rparr>"

definition example_products :: "product list" where
  "example_products =
     [\<lparr>product_id = ''p1'', category = Some ''books'', seller_id = None\<rparr>,
      \<lparr>product_id = ''p2'', category = Some ''toys'', seller_id = None\<rparr>]"

definition free_book_cart :: "cart_item list" where
  "free_book_cart =
     [\<lparr>item_product_id = ''p1'', quantity = 1, price = 0\<rparr>,
      \<lparr>item_product_id = ''p2'', quantity = 1, price = 100\<rparr>]"

definition book_cart :: "cart_item list" where
  "book_cart =
     [\<lparr>item_product_id = ''p1'', quantity = 2, price = 20\<rparr>,
      \<lparr>item_product_id = ''p2'', quantity = 1, price = 100\<rparr>]"

definition save10_coupon :: coupon where
  "save10_coupon =
     base_coupon\<lparr>code := ''SAVE10'', coupon_type := Percentage, coupon_value := 10,
                 max_discount := Some 20, usage_limit := Some 100, used_count := 5\<rparr>"

definition zero_cap_coupon :: coupon where
  "zero_cap_coupon =
     base_coupon\<lparr>coupon_type := Percentage, coupon_value := 10, max_discount := Some 0\<rparr>"

definition expired_coupon :: coupon where
  "expired_coupon = base_coupon\<lparr>expires_at := Some (Naive 5)\<rparr>"

definition limited_coupon :: coupon where
  "limited_coupon = base_coupon\<lparr>usage_per_user := Some 1\<rparr>"

definition exhausted_usage :: "coupon_usage list" where
  "exhausted_usage =
     [\<lparr>usage_coupon_id = ''c-1'', usage_user_id = ''u1''\<rparr>,
      \<lparr>usage_coupon_id = ''c-1'', usage_user_id = ''u2''\<rparr>]"

definition unreachable_store :: store where
  "unreachable_store =
     \<lparr>coupons_collection = Unreachable, coupon_usage_collection = Unreachable,
      products_collection = Unreachable, commission_rules_collection = Unreachable,
      seller_profiles_collection = Unreachable\<rparr>"

definition electronics_rule :: commission_rule where
  "electronics_rule =
     \<lparr>rule_category = Some ''electronics'', commission_rate = 15,
      min_order_value = Some 0, max_order_value = Some 1000, rule_is_active = True\<rparr>"

definition rules_store :: "commission_rule list \<Rightarrow> seller_profile list \<Rightarrow> store" where
  "rules_store rs ss =
     \<lparr>coupons_collection = Collection [], coupon_usage_collection = Collection [],
      products_collection = Collection [], commission_rules_collection = Collection rs,
      seller_profiles_collection = Collection ss\<rparr>"

section \<open>Notions of the specification: verification codes\<close>

text \<open>
  A record belongs to a pair of identifier and purpose; it is a live match for a code when
  it belongs to the pair, holds the hash of the code, is not verified and expires strictly
  after \<open>now\<close>.
\<close>

definition same_pair :: "string \<Rightarrow> string \<Rightarrow> verification_record \<Rightarrow> bool" where
  "same_pair ident purp r = (record_identifier r = ident \<and> purpose r = purp)"

definition live_match ::
  "(string \<Rightarrow> string) \<Rightarrow> datetime \<Rightarrow> string \<Rightarrow> string \<Rightarrow> string \<Rightarrow> verification_record \<Rightarrow> bool" where
  "live_match sha256 now ident code_str purp r =
     (same_pair ident purp r \<and> hashed_code r = sha256 code_str \<and> \<not> verified r
      \<and> now < code_expires_at r)"

text \<open>
  The invariant of the collection: no two documents share an \<^verbatim>\<open>_id\<close>, and there is at
  most one record for each pair of identifier and purpose.
\<close>

definition one_per_pair :: "verification_record list \<Rightarrow> bool" where
  "one_per_pair ds = distinct (map (\<lambda>r. (record_identifier r, purpose r)) ds)"

definition well_formed :: "verification_record list \<Rightarrow> bool" where
  "well_formed ds = (distinct (map record_id ds) \<and> one_per_pair ds)"

text \<open>
  A store, in the words of the specification: the records of the pair are deleted, and
  one new record is added, with the hash of the code, an expiry ten minutes (600000000
  microseconds) after its creation, not verified and without attempts.
\<close>

definition new_record ::
  "(string \<Rightarrow> string) \<Rightarrow> datetime \<Rightarrow> nat \<Rightarrow> string \<Rightarrow> string \<Rightarrow> string \<Rightarrow> string
     \<Rightarrow> verification_record" where
  "new_record sha256 now n ident code_str meth purp =
     \<lparr>record_id = n, record_identifier = ident, hashed_code = sha256 code_str,
      delivery_method = meth, purpose = purp, created_at = now,
      code_expires_at = now + 600000000, verified = False, verified_at = None,
      attempts = 0\<rparr>"

definition after_store ::
  "(string \<Rightarrow> string) \<Rightarrow> datetime \<Rightarrow> verification_record list
     \<Rightarrow> string \<Rightarrow> string \<Rightarrow> string \<Rightarrow> string \<Rightarrow> verification_record list" where
  "after_store sha256 now ds ident code_str meth purp =
     (let kept = filter (\<lambda>r. \<not> same_pair ident purp r) ds
      in kept @ [new_record sha256 now (fresh_id kept) ident code_str meth purp])"

text \<open>A sequence of calls of \<^verbatim>\<open>verify_code\<close>, each with its instant and arguments.\<close>

fun verify_all ::
  "(string \<Rightarrow> string) \<Rightarrow> verification_record collection
     \<Rightarrow> (datetime \<times> string \<times> string \<times> string) list \<Rightarrow> verification_record collection" where
  "verify_all sha256 c [] = c"
| "verify_all sha256 c (call # calls) =
     (case call of (now, ident, code_str, purp) \<Rightarrow>
        verify_all sha256 (snd (verify_code sha256 now c ident code_str purp)) calls)"

text \<open>
  A code is consumed for a pair when every record of the pair that holds its hash is
  verified.
\<close>

definition consumed ::
  "(string \<Rightarrow> string) \<Rightarrow> string \<Rightarrow> string \<Rightarrow> string \<Rightarrow> verification_record collection \<Rightarrow> bool" where
  "consumed sha256 ident code_str purp c =
     (case c of
        Unreachable \<Rightarrow> True
      | Collection ds \<Rightarrow>
          list_all (\<lambda>r. same_pair ident purp r \<and> hashed_code r = sha256 code_str \<longrightarrow> verified r) ds)"

text \<open>Example data: a hash function that keeps codes apart, and one stored code.\<close>

definition example_hash :: "string \<Rightarrow> string" where
  "example_hash s = ''sha256:'' @ s"

definition example_codes :: "verification_record list" where
  "example_codes =
     [new_record example_hash 0 1 ''a@example.com'' ''123456'' ''email'' ''verification'']"

section \<open>Filters\<close>

lemma find_cong_pred: "(\<And>x. P x = Q x) \<Longrightarrow> find P xs = find Q xs"
  by (induction xs) auto

lemma matches_coupon_query [simp]:
  "matches (coupon_query k) c = (code c = k \<and> is_active c)"
  by (simp add: matches_def coupon_query_def)

lemma matches_usage_query [simp]:
  "matches (usage_query cid uid) u = (usage_coupon_id u = cid \<and> usage_user_id u = uid)"
  by (simp add: matches_def usage_query_def)

lemma matches_product_query [simp]:
  "matches (product_query pid) p = (product_id p = pid)"
  by (simp add: matches_def product_query_def)

text \<open>
  Of the two \<^verbatim>\<open>"$or"\<close> items of the category filter only the second is part of the
  dict: the filter does not look at \<open>min_order_value\<close>.
\<close>

lemma matches_category_rule_query:
  "matches (category_rule_query t c) r =
     (rule_category r = Some c \<and> rule_is_active r \<and>
      (case max_order_value r of Some m \<Rightarrow> t \<le> m | None \<Rightarrow> True))"
  by (auto simp: matches_def category_rule_query_def split: option.splits)

lemma matches_default_rule_query:
  "matches default_rule_query r = (rule_category r = None \<and> rule_is_active r)"
  by (simp add: matches_def default_rule_query_def)

lemma matches_seller_query:
  "matches (seller_query sid) s = (seller_user_id s = sid)"
  by (simp add: matches_def seller_query_def)

lemma find_one_coupon:
  "find_one (Collection cs) (coupon_query k) = Inr (find (\<lambda>c. code c = k \<and> is_active c) cs)"
  by (simp add: find_one_def cong: find_cong_pred)

lemma find_one_product:
  "find_one (Collection ps) (product_query pid) = Inr (find (\<lambda>p. product_id p = pid) ps)"
  by (simp add: find_one_def cong: find_cong_pred)

lemmas example_defs = base_coupon_def example_store_def books_coupon_def
  example_products_def free_book_cart_def book_cart_def

section \<open>The commission rate\<close>

text \<open>The example of the specification: a rule whose bounds hold the order total.\<close>

lemma calculate_commission_electronics:
  "calculate_commission (rules_store [electronics_rule] []) 500 ''seller-1''
     (Some ''electronics'') = (15, 75)"
  by (simp add: calculate_commission_def calculate_commission_body_def find_one_def
      matches_category_rule_query rules_store_def electronics_rule_def)

text \<open>
  C1. The rate is resolved from a category rule whose bounds hold the order total, else
  from the default rule, else from the seller, else it is 10. The code does not do this
  for the lower bound: a rule for the category with \<open>min_order_value = 100\<close> and
  \<open>max_order_value = 1000\<close> is used for an order total of 50, which is below its lower
  bound, and the result is the rule's 15 percent, where the resolution order gives the
  fallback of 10 percent.
\<close>

theorem calculate_commission_ignores_min_order_value:
  "calculate_commission
     (rules_store [electronics_rule\<lparr>min_order_value := Some 100\<rparr>] []) 50 ''seller-1''
     (Some ''electronics'') = (15, 7.5)"
  by (simp add: calculate_commission_def calculate_commission_body_def find_one_def
      matches_category_rule_query rules_store_def electronics_rule_def)

section \<open>The coupon\<close>

lemma datetime_less_fault: "datetime_less a b = Inl e \<Longrightarrow> e = TypeError"
  by (cases a; cases b) simp_all

lemma early_checks_split:
  "early_checks db now cart_total user_id coupon =
     (case date_checks now coupon of
        Inl e \<Rightarrow> Inl e
      | Inr (Declined m) \<Rightarrow> Inr (Declined m)
      | Inr (Passed u) \<Rightarrow> later_checks db cart_total user_id coupon)"
proof -
  obtain d1 where d1: "(case starts_at coupon of
      Some s \<Rightarrow> datetime_less (Aware now) s | None \<Rightarrow> Inr False) = d1"
    by simp
  obtain d2 where d2: "(case expires_at coupon of
      Some x \<Rightarrow> datetime_less x (Aware now) | None \<Rightarrow> Inr False) = d2"
    by simp
  show ?thesis
    unfolding early_checks_def date_checks_def later_checks_def d1 d2
    by (cases d1; cases d2) (simp_all split: bool.split)
qed

lemma date_checks_fault: "date_checks now coupon = Inl e \<Longrightarrow> e = TypeError"
  by (auto simp: date_checks_def split: option.splits sum.splits bool.splits
      dest: datetime_less_fault)

lemma date_checks_declined:
  "date_checks now coupon = Inr (Declined m) \<Longrightarrow>
     m = Msg ''Coupon is not yet active'' \<or> m = Msg ''Coupon has expired''"
  by (auto simp: date_checks_def split: option.splits sum.splits bool.splits)

lemma date_checks_no_dates:
  "starts_at coupon = None \<Longrightarrow> expires_at coupon = None \<Longrightarrow>
     date_checks now coupon = Inr (Passed ())"
  by (simp add: date_checks_def)

lemma apply_coupon_found:
  assumes "coupons_collection db = Collection cs"
    and "find (\<lambda>c. code c = coupon_code \<and> is_active c) cs = Some coupon"
  shows "apply_coupon db now cart_total coupon_code user_id cart_items =
     (case early_checks db now cart_total user_id coupon of
        Inl e \<Rightarrow> (0, Msg ''Error applying coupon'')
      | Inr (Declined m) \<Rightarrow> (0, m)
      | Inr (Passed u) \<Rightarrow>
          (case scope_check (products_collection db) coupon cart_total cart_items of
             Inl e \<Rightarrow> (0, Msg ''Error applying coupon'')
           | Inr (Declined m) \<Rightarrow> (0, m)
           | Inr (Passed t) \<Rightarrow> (discount_of coupon t, Msg ''Coupon applied successfully'')))"
  using assms
  by (simp add: apply_coupon_def apply_coupon_body_def find_one_coupon
      split: sum.splits check.splits)

subsection \<open>The scope check\<close>

text \<open>The loop computes whether some item matches, and the eligible subtotal.\<close>

lemma scope_loop_result:
  "scope_loop (Collection ps) coupon items scope_valid eligible_total =
     Inr (scope_valid \<or> (\<exists>i \<in> set items. item_matches ps coupon i),
          eligible_total + eligible_subtotal ps coupon items)"
  by (induction items arbitrary: scope_valid eligible_total)
     (auto simp: find_one_product item_matches_def eligible_subtotal_def split: option.splits)

lemma scope_check_narrowing:
  assumes "scope coupon \<noteq> Global" and "items \<noteq> []"
  shows "scope_check (Collection ps) coupon cart_total (Some items) =
     (if \<not> (\<exists>i \<in> set items. item_matches ps coupon i)
      then Inr (Declined (Msg ''Coupon is not applicable to items in your cart''))
      else if eligible_subtotal ps coupon items > 0
      then Inr (Passed (eligible_subtotal ps coupon items))
      else Inr (Passed cart_total))"
  using assms by (simp add: scope_check_def scope_loop_result)

lemma scope_check_no_items:
  "cart_items = None \<or> cart_items = Some [] \<Longrightarrow>
     scope_check products coupon cart_total cart_items = Inr (Passed cart_total)"
  by (auto simp: scope_check_def)

lemma scope_check_not_user_message:
  "scope_check products coupon cart_total cart_items \<noteq>
     Inr (Declined (Msg ''You have reached the usage limit for this coupon''))"
  by (simp add: scope_check_def split: option.splits sum.splits prod.splits)

text \<open>
  C2. For a coupon whose scope is not global, found and past the earlier checks, and a
  cart that is not empty, with the catalogue reachable: when no item matches the scope the
  result is discount 0 with the message that the coupon is not applicable; when some item
  matches and the eligible subtotal is positive the discount is computed from the eligible
  subtotal; when some item matches and the eligible subtotal is not positive the discount
  is computed from the full cart total.
\<close>

theorem scoped_coupon_uses_positive_eligible_subtotal:
  assumes "coupons_collection db = Collection cs"
    and "find (\<lambda>c. code c = coupon_code \<and> is_active c) cs = Some coupon"
    and "early_checks db now cart_total user_id coupon = Inr (Passed ())"
    and "products_collection db = Collection ps"
    and "scope coupon \<noteq> Global" and "items \<noteq> []"
  shows "apply_coupon db now cart_total coupon_code user_id (Some items) =
     (if \<not> (\<exists>i \<in> set items. item_matches ps coupon i)
      then (0, Msg ''Coupon is not applicable to items in your cart'')
      else if eligible_subtotal ps coupon items > 0
      then (discount_of coupon (eligible_subtotal ps coupon items),
            Msg ''Coupon applied successfully'')
      else (discount_of coupon cart_total, Msg ''Coupon applied successfully''))"
  using assms by (simp add: apply_coupon_found scope_check_narrowing)

theorem scoped_coupon_uses_positive_eligible_subtotal_witness:
  "apply_coupon (example_store [books_coupon\<lparr>coupon_value := 50\<rparr>] [] example_products) 0 140
     ''SAVE'' None (Some book_cart) = (40, Msg ''Coupon applied successfully'')"
proof -
  let ?c = "books_coupon\<lparr>coupon_value := 50\<rparr>"
  let ?db = "example_store [?c] [] example_products"
  have 1: "coupons_collection ?db = Collection [?c]"
    by (simp add: example_defs)
  have 2: "find (\<lambda>c. code c = ''SAVE'' \<and> is_active c) [?c] = Some ?c"
    by (simp add: example_defs)
  have 3: "early_checks ?db 0 140 None ?c = Inr (Passed ())"
    by (simp add: example_defs early_checks_def)
  have 4: "products_collection ?db = Collection example_products"
    by (simp add: example_defs)
  have 5: "scope ?c \<noteq> Global" and 6: "book_cart \<noteq> []"
    by (simp_all add: example_defs)
  show ?thesis
    using scoped_coupon_uses_positive_eligible_subtotal [OF 1 2 3 4 5 6]
    by (simp add: example_defs item_matches_def item_eligible_def eligible_subtotal_def
        discount_of_def)
qed

text \<open>
  A cart with a free book and a toy of 100, and a fixed coupon of 5 for books: the book
  matches, the eligible subtotal is 0, a discount computed from it is 0, and the code
  returns 5, computed from the cart total.
\<close>

theorem scoped_coupon_zero_subtotal_counterexample:
  "item_matches example_products books_coupon (hd free_book_cart)
   \<and> eligible_subtotal example_products books_coupon free_book_cart = 0
   \<and> discount_of books_coupon (eligible_subtotal example_products books_coupon free_book_cart) = 0
   \<and> apply_coupon (example_store [books_coupon] [] example_products) 0 100 ''SAVE'' None
        (Some free_book_cart) = (5, Msg ''Coupon applied successfully'')"
  by (simp add: example_defs item_matches_def item_eligible_def eligible_subtotal_def
      discount_of_def apply_coupon_found early_checks_def scope_check_def find_one_product)

subsection \<open>Expiry\<close>

text \<open>
  A date of the coupon that is set and naive makes its comparison with the clock reading
  raise, whatever the two instants are.
\<close>

lemma early_checks_naive_start:
  "starts_at coupon = Some (Naive s) \<Longrightarrow>
     early_checks db now cart_total user_id coupon = Inl TypeError"
  by (simp add: early_checks_split date_checks_def)

lemma early_checks_naive_expiry:
  "starts_at coupon = None \<Longrightarrow> expires_at coupon = Some (Naive x) \<Longrightarrow>
     early_checks db now cart_total user_id coupon = Inl TypeError"
  by (simp add: early_checks_split date_checks_def)

text \<open>
  C3. A coupon whose expiry is set and strictly in the past gives discount 0 with the
  message that the coupon has expired. The code does not do this. The expiry read from
  the document is naive and the clock reading is aware, so the comparison of line 190
  raises and the result is the message of an error: an active coupon without a start
  date that expired at instant 5, evaluated at instant 10, gives discount 0 with
  \<^verbatim>\<open>Error applying coupon\<close>.
\<close>

theorem expired_coupon_raises:
  "is_active expired_coupon
   \<and> starts_at expired_coupon = None
   \<and> expires_at expired_coupon = Some (Naive 5)
   \<and> (5::int) < 10
   \<and> apply_coupon (example_store [expired_coupon] [] []) 10 50 ''SAVE'' None None
        = (0, Msg ''Error applying coupon'')"
  by (simp add: example_defs expired_coupon_def apply_coupon_found early_checks_def)

subsection \<open>The discount\<close>

text \<open>
  C6. For a percentage coupon with value \<open>v\<close> that is found and passes all checks, where
  \<open>t\<close> is the total that the scope check passes on (the cart total, or the eligible
  subtotal): the discount is \<open>min (t * v / 100) t\<close> when \<open>max_discount\<close> is unset or is 0,
  and \<open>min (min (t * v / 100) m) t\<close> when \<open>max_discount\<close> is \<open>m\<close> and \<open>m\<close> is not 0; the
  message is that the coupon was applied.
\<close>

theorem percentage_discount:
  assumes "coupons_collection db = Collection cs"
    and "find (\<lambda>c. code c = coupon_code \<and> is_active c) cs = Some coupon"
    and "early_checks db now cart_total user_id coupon = Inr (Passed ())"
    and "scope_check (products_collection db) coupon cart_total cart_items = Inr (Passed t)"
    and "coupon_type coupon = Percentage"
  shows "apply_coupon db now cart_total coupon_code user_id cart_items =
     ((case max_discount coupon of
         None \<Rightarrow> min (t * coupon_value coupon / 100) t
       | Some m \<Rightarrow> (if m = 0 then min (t * coupon_value coupon / 100) t
                    else min (min (t * coupon_value coupon / 100) m) t)),
      Msg ''Coupon applied successfully'')"
  using assms by (simp add: apply_coupon_found discount_of_def split: option.splits)

text \<open>The example of the specification: 10 percent of 250, capped at 20.\<close>

theorem percentage_discount_witness:
  "apply_coupon (example_store [save10_coupon] [] []) 0 250 ''SAVE10'' None None
     = (20, Msg ''Coupon applied successfully'')"
proof -
  let ?db = "example_store [save10_coupon] [] []"
  have 1: "coupons_collection ?db = Collection [save10_coupon]"
    by (simp add: example_defs)
  have 2: "find (\<lambda>c. code c = ''SAVE10'' \<and> is_active c) [save10_coupon] = Some save10_coupon"
    by (simp add: example_defs save10_coupon_def)
  have 3: "early_checks ?db 0 250 None save10_coupon = Inr (Passed ())"
    by (simp add: example_defs save10_coupon_def early_checks_def)
  have 4: "scope_check (products_collection ?db) save10_coupon 250 None = Inr (Passed 250)"
    by (simp add: scope_check_def)
  have 5: "coupon_type save10_coupon = Percentage"
    by (simp add: example_defs save10_coupon_def)
  show ?thesis
    using percentage_discount [OF 1 2 3 4 5] by (simp add: example_defs save10_coupon_def)
qed

text \<open>
  A percentage coupon of 10 percent whose \<open>max_discount\<close> is set to 0, on a cart of 100:
  the code returns 10, and the minimum of 10, 0 and 100 is 0.
\<close>

theorem percentage_zero_cap_counterexample:
  "coupon_type zero_cap_coupon = Percentage
   \<and> coupon_value zero_cap_coupon = 10
   \<and> max_discount zero_cap_coupon = Some 0
   \<and> apply_coupon (example_store [zero_cap_coupon] [] []) 0 100 ''SAVE'' None None
        = (10, Msg ''Coupon applied successfully'')
   \<and> min (min (100 * 10 / 100) 0) (100::real) \<noteq> 10"
  by (simp add: example_defs zero_cap_coupon_def apply_coupon_found early_checks_def
      scope_check_def discount_of_def)

lemma discount_of_le: "discount_of coupon t \<le> t"
  by (simp add: discount_of_def Let_def)

lemma scope_check_global:
  "scope coupon = Global \<Longrightarrow>
     scope_check products coupon cart_total cart_items = Inr (Passed cart_total)"
  by (simp add: scope_check_def split: option.splits)

text \<open>
  C7. For a coupon that is found and passes all checks, where \<open>t\<close> is the total that the
  scope check passes on: a fixed coupon with value \<open>v\<close> gives the discount \<open>min v t\<close>, and
  the discount of a coupon of any type is at most \<open>t\<close>.
\<close>

theorem fixed_discount:
  assumes "coupons_collection db = Collection cs"
    and "find (\<lambda>c. code c = coupon_code \<and> is_active c) cs = Some coupon"
    and "early_checks db now cart_total user_id coupon = Inr (Passed ())"
    and "scope_check (products_collection db) coupon cart_total cart_items = Inr (Passed t)"
  shows "(coupon_type coupon = Fixed \<longrightarrow>
            apply_coupon db now cart_total coupon_code user_id cart_items =
              (min (coupon_value coupon) t, Msg ''Coupon applied successfully''))
         \<and> fst (apply_coupon db now cart_total coupon_code user_id cart_items) \<le> t"
  using assms by (simp add: apply_coupon_found discount_of_le) (simp add: discount_of_def)

theorem fixed_discount_witness:
  "apply_coupon (example_store [base_coupon] [] []) 0 3 ''SAVE'' None None
     = (3, Msg ''Coupon applied successfully'')
   \<and> fst (apply_coupon (example_store [base_coupon] [] []) 0 3 ''SAVE'' None None) \<le> 3"
proof -
  let ?db = "example_store [base_coupon] [] []"
  have 1: "coupons_collection ?db = Collection [base_coupon]"
    by (simp add: example_defs)
  have 2: "find (\<lambda>c. code c = ''SAVE'' \<and> is_active c) [base_coupon] = Some base_coupon"
    by (simp add: example_defs)
  have 3: "early_checks ?db 0 3 None base_coupon = Inr (Passed ())"
    by (simp add: example_defs early_checks_def)
  have 4: "scope_check (products_collection ?db) base_coupon 3 None = Inr (Passed 3)"
    by (simp add: scope_check_def)
  have 5: "coupon_type base_coupon = Fixed" and 6: "coupon_value base_coupon = 5"
    by (simp_all add: example_defs)
  show ?thesis
    using fixed_discount [OF 1 2 3 4] 5 6 by simp
qed

subsection \<open>Checks that are skipped\<close>

lemma later_checks_products:
  "later_checks (db\<lparr>products_collection := pc\<rparr>) cart_total user_id coupon =
     later_checks db cart_total user_id coupon"
  by (simp add: later_checks_def cong: option.case_cong sum.case_cong if_cong)

lemma early_checks_products [simp]:
  "early_checks (db\<lparr>products_collection := pc\<rparr>) now cart_total user_id coupon =
     early_checks db now cart_total user_id coupon"
  by (simp add: early_checks_split later_checks_products
      cong: sum.case_cong check.case_cong)

lemma later_checks_not_scope_message:
  "later_checks db cart_total user_id coupon \<noteq>
     Inr (Declined (Msg ''Coupon is not applicable to items in your cart''))"
  by (simp add: later_checks_def split: option.splits sum.splits bool.splits)

lemma early_checks_not_scope_message:
  "early_checks db now cart_total user_id coupon \<noteq>
     Inr (Declined (Msg ''Coupon is not applicable to items in your cart''))"
  using later_checks_not_scope_message [of db cart_total user_id coupon]
  by (auto simp: early_checks_split split: sum.splits check.splits dest: date_checks_declined)

text \<open>
  C9. When \<^verbatim>\<open>cart_items\<close> is \<open>None\<close> or the empty list, the result does not depend on
  the catalogue of products (no item is looked up, and the catalogue may even be
  unreachable), the message is never that the coupon is not applicable to the items of
  the cart, and a coupon that is found and passes the other checks has its discount
  computed from the full cart total, also when its scope is not global.
\<close>

theorem no_items_skips_scope_check:
  assumes "cart_items = None \<or> cart_items = Some []"
  shows "apply_coupon (db\<lparr>products_collection := pc\<rparr>) now cart_total coupon_code user_id cart_items
           = apply_coupon db now cart_total coupon_code user_id cart_items
         \<and> snd (apply_coupon db now cart_total coupon_code user_id cart_items)
             \<noteq> Msg ''Coupon is not applicable to items in your cart''
         \<and> (coupons_collection db = Collection cs
              \<and> find (\<lambda>c. code c = coupon_code \<and> is_active c) cs = Some coupon
              \<and> early_checks db now cart_total user_id coupon = Inr (Passed ())
             \<longrightarrow> apply_coupon db now cart_total coupon_code user_id cart_items
                   = (discount_of coupon cart_total, Msg ''Coupon applied successfully''))"
proof (intro conjI impI)
  show "apply_coupon (db\<lparr>products_collection := pc\<rparr>) now cart_total coupon_code user_id cart_items
          = apply_coupon db now cart_total coupon_code user_id cart_items"
    using scope_check_no_items [OF assms]
    by (simp add: apply_coupon_def apply_coupon_body_def
        split: sum.splits option.splits check.splits)
next
  show "snd (apply_coupon db now cart_total coupon_code user_id cart_items)
          \<noteq> Msg ''Coupon is not applicable to items in your cart''"
    using assms early_checks_not_scope_message [of db now cart_total user_id]
    by (auto simp: apply_coupon_def apply_coupon_body_def scope_check_no_items
        split: sum.splits option.splits check.splits)
next
  assume "coupons_collection db = Collection cs
            \<and> find (\<lambda>c. code c = coupon_code \<and> is_active c) cs = Some coupon
            \<and> early_checks db now cart_total user_id coupon = Inr (Passed ())"
  then show "apply_coupon db now cart_total coupon_code user_id cart_items
               = (discount_of coupon cart_total, Msg ''Coupon applied successfully'')"
    using assms by (simp add: apply_coupon_found scope_check_no_items)
qed

theorem no_items_skips_scope_check_witness:
  "apply_coupon (example_store [books_coupon] [] example_products) 0 100 ''SAVE'' None (Some [])
     = (5, Msg ''Coupon applied successfully'')
   \<and> apply_coupon ((example_store [books_coupon] [] example_products)
                     \<lparr>products_collection := Unreachable\<rparr>) 0 100 ''SAVE'' None (Some [])
     = (5, Msg ''Coupon applied successfully'')"
proof -
  let ?db = "example_store [books_coupon] [] example_products"
  have 0: "Some [] = None \<or> Some ([]::cart_item list) = Some []"
    by simp
  have 1: "coupons_collection ?db = Collection [books_coupon]
           \<and> find (\<lambda>c. code c = ''SAVE'' \<and> is_active c) [books_coupon] = Some books_coupon
           \<and> early_checks ?db 0 100 None books_coupon = Inr (Passed ())"
    by (simp add: example_defs early_checks_def)
  have 2: "discount_of books_coupon 100 = 5"
    by (simp add: example_defs discount_of_def)
  show ?thesis
    using no_items_skips_scope_check [OF 0, where db = ?db and pc = Unreachable and now = 0
        and cart_total = 100 and coupon_code = "''SAVE''" and user_id = None
        and cs = "[books_coupon]" and coupon = books_coupon] 1 2
    by simp
qed

lemma later_checks_no_user:
  "later_checks (db\<lparr>coupon_usage_collection := uc\<rparr>) cart_total None coupon =
     later_checks db cart_total None coupon"
  by (simp add: later_checks_def cong: option.case_cong sum.case_cong if_cong)

lemma early_checks_no_user:
  "early_checks (db\<lparr>coupon_usage_collection := uc\<rparr>) now cart_total None coupon =
     early_checks db now cart_total None coupon"
  by (simp add: early_checks_split later_checks_no_user
      cong: sum.case_cong check.case_cong)

lemma later_checks_no_user_message:
  "later_checks db cart_total None coupon \<noteq>
     Inr (Declined (Msg ''You have reached the usage limit for this coupon''))"
  by (simp add: later_checks_def split: option.splits)

lemma early_checks_no_user_message:
  "early_checks db now cart_total None coupon \<noteq>
     Inr (Declined (Msg ''You have reached the usage limit for this coupon''))"
  using later_checks_no_user_message [of db cart_total coupon]
  by (auto simp: early_checks_split split: sum.splits check.splits dest: date_checks_declined)

text \<open>
  C10. When \<^verbatim>\<open>user_id\<close> is \<open>None\<close>, the result does not depend on the collection of
  coupon usages and the message is never that of the limit per user. A coupon limited to
  one use per user, which the usage history has exhausted for both of its users, is
  declined for each of them and gives the discount 5 when no user is given.
\<close>

theorem no_user_skips_per_user_limit:
  "apply_coupon (db\<lparr>coupon_usage_collection := uc\<rparr>) now cart_total coupon_code None cart_items
     = apply_coupon db now cart_total coupon_code None cart_items
   \<and> snd (apply_coupon db now cart_total coupon_code None cart_items)
       \<noteq> Msg ''You have reached the usage limit for this coupon''
   \<and> usage_per_user limited_coupon = Some 1
   \<and> apply_coupon (example_store [limited_coupon] exhausted_usage []) 0 100 ''SAVE''
       (Some ''u1'') None = (0, Msg ''You have reached the usage limit for this coupon'')
   \<and> apply_coupon (example_store [limited_coupon] exhausted_usage []) 0 100 ''SAVE''
       (Some ''u2'') None = (0, Msg ''You have reached the usage limit for this coupon'')
   \<and> apply_coupon (example_store [limited_coupon] exhausted_usage []) 0 100 ''SAVE''
       None None = (5, Msg ''Coupon applied successfully'')"
proof (intro conjI)
  show "apply_coupon (db\<lparr>coupon_usage_collection := uc\<rparr>) now cart_total coupon_code None cart_items
          = apply_coupon db now cart_total coupon_code None cart_items"
    by (simp add: apply_coupon_def apply_coupon_body_def early_checks_no_user
        split: sum.splits option.splits check.splits)
next
  show "snd (apply_coupon db now cart_total coupon_code None cart_items)
          \<noteq> Msg ''You have reached the usage limit for this coupon''"
    using early_checks_no_user_message [of db now cart_total]
      scope_check_not_user_message [of "products_collection db" _ cart_total cart_items]
    by (auto simp: apply_coupon_def apply_coupon_body_def
        split: sum.splits option.splits check.splits)
qed (simp_all add: example_defs limited_coupon_def exhausted_usage_def apply_coupon_found
      early_checks_def scope_check_def discount_of_def count_documents_def)

section \<open>Faults\<close>

text \<open>Where each function can raise: its lookups, and the comparisons of dates.\<close>

lemma early_checks_usage_unreachable:
  assumes "starts_at coupon = None" and "expires_at coupon = None"
    and "case usage_limit coupon of Some l \<Rightarrow> l = 0 \<or> used_count coupon < l | None \<Rightarrow> True"
    and "user_id = Some u" and "u \<noteq> []"
    and "usage_per_user coupon = Some n" and "n \<noteq> 0"
    and "coupon_usage_collection db = Unreachable"
  shows "early_checks db now cart_total user_id coupon = Inl StoreFault"
  using assms
  by (auto simp: early_checks_split date_checks_no_dates later_checks_def count_documents_def
      split: option.splits)

lemma count_documents_fault: "count_documents c q = Inl e \<Longrightarrow> c = Unreachable"
  by (cases c) (simp_all add: count_documents_def)

lemma later_checks_fault:
  "later_checks db cart_total user_id coupon = Inl e \<Longrightarrow>
     coupon_usage_collection db = Unreachable"
  by (auto simp: later_checks_def
      split: option.splits sum.splits bool.splits if_splits dest: count_documents_fault)

lemma early_checks_fault:
  "early_checks db now cart_total user_id coupon = Inl e \<Longrightarrow>
     e = TypeError \<or> coupon_usage_collection db = Unreachable"
  by (auto simp: early_checks_split split: sum.splits check.splits
      dest: date_checks_fault later_checks_fault)

lemma scope_loop_unreachable:
  "items \<noteq> [] \<Longrightarrow> scope_loop Unreachable coupon items scope_valid eligible_total = Inl StoreFault"
  by (cases items) (simp_all add: find_one_def)

lemma scope_loop_fault:
  "scope_loop products coupon items scope_valid eligible_total = Inl e \<Longrightarrow>
     products = Unreachable"
  by (cases products) (simp_all add: scope_loop_result)

lemma scope_check_unreachable:
  "scope coupon \<noteq> Global \<Longrightarrow> items \<noteq> [] \<Longrightarrow>
     scope_check Unreachable coupon cart_total (Some items) = Inl StoreFault"
  by (simp add: scope_check_def scope_loop_unreachable)

lemma scope_check_fault:
  "scope_check products coupon cart_total cart_items = Inl e \<Longrightarrow> products = Unreachable"
  by (auto simp: scope_check_def split: option.splits if_splits sum.splits prod.splits
      dest: scope_loop_fault)

lemma apply_coupon_coupons_unreachable:
  "coupons_collection db = Unreachable \<Longrightarrow>
     apply_coupon db now cart_total coupon_code user_id cart_items
       = (0, Msg ''Error applying coupon'')"
  by (simp add: apply_coupon_def apply_coupon_body_def find_one_def)

lemma apply_coupon_body_fault:
  assumes "apply_coupon_body db now cart_total coupon_code user_id cart_items = Inl e"
  shows "e = TypeError \<or> coupons_collection db = Unreachable
         \<or> coupon_usage_collection db = Unreachable \<or> products_collection db = Unreachable"
proof (cases "coupons_collection db")
  case Unreachable
  then show ?thesis by simp
next
  case (Collection cs)
  show ?thesis
  proof (cases "find (matches (coupon_query coupon_code)) cs")
    case None
    with assms Collection show ?thesis
      by (simp add: apply_coupon_body_def find_one_def)
  next
    case (Some coupon)
    show ?thesis
    proof (cases "early_checks db now cart_total user_id coupon")
      case (Inl e1)
      with assms Collection Some have "e = e1"
        by (simp add: apply_coupon_body_def find_one_def)
      with Inl early_checks_fault show ?thesis by blast
    next
      case (Inr r)
      show ?thesis
      proof (cases r)
        case (Declined m)
        with assms Collection Some Inr show ?thesis
          by (simp add: apply_coupon_body_def find_one_def)
      next
        case (Passed u)
        with assms Collection Some Inr
        have "scope_check (products_collection db) coupon cart_total cart_items = Inl e"
          by (simp add: apply_coupon_body_def find_one_def split: sum.splits check.splits)
        then show ?thesis by (simp add: scope_check_fault)
      qed
    qed
  qed
qed

lemma calculate_commission_rules_unreachable:
  "commission_rules_collection db = Unreachable \<Longrightarrow>
     calculate_commission db order_total sid cat = (10, order_total * 0.1)"
  by (simp add: calculate_commission_def calculate_commission_body_def find_one_def
      split: option.splits)

lemma find_None_all: "\<forall>x \<in> set xs. \<not> P x \<Longrightarrow> find P xs = None"
  by (simp add: find_None_iff)

lemma calculate_commission_sellers_unreachable:
  assumes "commission_rules_collection db = Collection rs"
    and "\<forall>r \<in> set rs. \<not> matches default_rule_query r
           \<and> (case cat of Some c \<Rightarrow> \<not> matches (category_rule_query order_total c) r
               | None \<Rightarrow> True)"
    and "seller_profiles_collection db = Unreachable"
  shows "calculate_commission db order_total sid cat = (10, order_total * 0.1)"
proof -
  from assms(2) have none_default: "find (matches default_rule_query) rs = None"
    by (simp add: find_None_iff)
  have none_cat: "find (matches (category_rule_query order_total c)) rs = None"
    if "cat = Some c" for c
    using assms(2) that by (simp add: find_None_iff)
  show ?thesis
    using assms(1,3) none_default none_cat
    by (simp add: calculate_commission_def calculate_commission_body_def find_one_def
        split: option.splits)
qed

lemma calculate_commission_body_fault:
  assumes "calculate_commission_body db order_total sid cat = Inl e"
  shows "commission_rules_collection db = Unreachable
         \<or> seller_profiles_collection db = Unreachable"
proof (rule ccontr)
  assume "\<not> ?thesis"
  then obtain rs ss where "commission_rules_collection db = Collection rs"
    and "seller_profiles_collection db = Collection ss"
    by (cases "commission_rules_collection db"; cases "seller_profiles_collection db") auto
  then have "calculate_commission_body db order_total sid cat \<noteq> Inl e"
    by (simp add: calculate_commission_body_def find_one_def Let_def split: option.splits)
  with assms show False by simp
qed

text \<open>
  C8. On every input each function returns the result of its body or its default, and
  every fault inside it gives the default. For \<^verbatim>\<open>apply_coupon\<close>: when the coupons cannot
  be read; when the coupon is
  found and its start date, or without a start date its expiry date, is naive; when the
  coupon is found without dates, within its usage limit, a user is given, a limit per
  user is set and the usages cannot be read; when the coupon is found and passes the
  early checks, its scope is not global, the cart has items and the products cannot be
  read; the result is then discount 0 with the message of an error. These are all the
  faults: when the body raises, the exception is a \<^verbatim>\<open>TypeError\<close> or one of the three
  collections is unreachable, and the result is that default. For
  \<^verbatim>\<open>calculate_commission\<close>: when the rules cannot be read, and when no rule applies and
  the seller profiles cannot be read, the result is the rate 10 with a tenth of the order
  total; when the body raises, one of the two collections is unreachable and the result
  is that default.
\<close>

theorem faults_become_defaults:
  "(apply_coupon_body db now cart_total coupon_code user_id cart_items
        = Inr (apply_coupon db now cart_total coupon_code user_id cart_items)
      \<or> apply_coupon db now cart_total coupon_code user_id cart_items
        = (0, Msg ''Error applying coupon''))
   \<and> (calculate_commission_body db order_total sid cat
        = Inr (calculate_commission db order_total sid cat)
      \<or> calculate_commission db order_total sid cat = (10, order_total * 0.1))
   \<and> (coupons_collection db = Unreachable \<longrightarrow>
      apply_coupon db now cart_total coupon_code user_id cart_items
        = (0, Msg ''Error applying coupon''))
   \<and> (coupons_collection db = Collection cs
        \<and> find (\<lambda>c. code c = coupon_code \<and> is_active c) cs = Some coupon
        \<and> (starts_at coupon = Some (Naive s)
            \<or> starts_at coupon = None \<and> expires_at coupon = Some (Naive x)) \<longrightarrow>
      apply_coupon db now cart_total coupon_code user_id cart_items
        = (0, Msg ''Error applying coupon''))
   \<and> (coupons_collection db = Collection cs
        \<and> find (\<lambda>c. code c = coupon_code \<and> is_active c) cs = Some coupon
        \<and> starts_at coupon = None \<and> expires_at coupon = None
        \<and> (case usage_limit coupon of Some l \<Rightarrow> l = 0 \<or> used_count coupon < l | None \<Rightarrow> True)
        \<and> user_id = Some u \<and> u \<noteq> [] \<and> usage_per_user coupon = Some n \<and> n \<noteq> 0
        \<and> coupon_usage_collection db = Unreachable \<longrightarrow>
      apply_coupon db now cart_total coupon_code user_id cart_items
        = (0, Msg ''Error applying coupon''))
   \<and> (coupons_collection db = Collection cs
        \<and> find (\<lambda>c. code c = coupon_code \<and> is_active c) cs = Some coupon
        \<and> early_checks db now cart_total user_id coupon = Inr (Passed ())
        \<and> scope coupon \<noteq> Global \<and> cart_items = Some items \<and> items \<noteq> []
        \<and> products_collection db = Unreachable \<longrightarrow>
      apply_coupon db now cart_total coupon_code user_id cart_items
        = (0, Msg ''Error applying coupon''))
   \<and> (apply_coupon_body db now cart_total coupon_code user_id cart_items = Inl e \<longrightarrow>
        (e = TypeError \<or> coupons_collection db = Unreachable
         \<or> coupon_usage_collection db = Unreachable \<or> products_collection db = Unreachable)
        \<and> apply_coupon db now cart_total coupon_code user_id cart_items
            = (0, Msg ''Error applying coupon''))
   \<and> (commission_rules_collection db = Unreachable \<longrightarrow>
        calculate_commission db order_total sid cat = (10, order_total * 0.1))
   \<and> (commission_rules_collection db = Collection rs
        \<and> (\<forall>r \<in> set rs. \<not> matches default_rule_query r
               \<and> (case cat of Some c \<Rightarrow> \<not> matches (category_rule_query order_total c) r
                   | None \<Rightarrow> True))
        \<and> seller_profiles_collection db = Unreachable \<longrightarrow>
        calculate_commission db order_total sid cat = (10, order_total * 0.1))
   \<and> (calculate_commission_body db order_total sid cat = Inl e' \<longrightarrow>
        (commission_rules_collection db = Unreachable
         \<or> seller_profiles_collection db = Unreachable)
        \<and> calculate_commission db order_total sid cat = (10, order_total * 0.1))"
proof (intro conjI impI)
  show "apply_coupon_body db now cart_total coupon_code user_id cart_items
        = Inr (apply_coupon db now cart_total coupon_code user_id cart_items)
      \<or> apply_coupon db now cart_total coupon_code user_id cart_items
        = (0, Msg ''Error applying coupon'')"
    by (simp add: apply_coupon_def split: sum.splits)
next
  show "calculate_commission_body db order_total sid cat
        = Inr (calculate_commission db order_total sid cat)
      \<or> calculate_commission db order_total sid cat = (10, order_total * 0.1)"
    by (simp add: calculate_commission_def split: sum.splits)
next
  assume "coupons_collection db = Unreachable"
  then show "apply_coupon db now cart_total coupon_code user_id cart_items
      = (0, Msg ''Error applying coupon'')"
    by (rule apply_coupon_coupons_unreachable)
next
  assume "coupons_collection db = Collection cs
        \<and> find (\<lambda>c. code c = coupon_code \<and> is_active c) cs = Some coupon
        \<and> (starts_at coupon = Some (Naive s)
            \<or> starts_at coupon = None \<and> expires_at coupon = Some (Naive x))"
  then show "apply_coupon db now cart_total coupon_code user_id cart_items
      = (0, Msg ''Error applying coupon'')"
    by (auto simp: apply_coupon_found early_checks_naive_start early_checks_naive_expiry)
next
  assume "coupons_collection db = Collection cs
        \<and> find (\<lambda>c. code c = coupon_code \<and> is_active c) cs = Some coupon
        \<and> starts_at coupon = None \<and> expires_at coupon = None
        \<and> (case usage_limit coupon of Some l \<Rightarrow> l = 0 \<or> used_count coupon < l | None \<Rightarrow> True)
        \<and> user_id = Some u \<and> u \<noteq> [] \<and> usage_per_user coupon = Some n \<and> n \<noteq> 0
        \<and> coupon_usage_collection db = Unreachable"
  then show "apply_coupon db now cart_total coupon_code user_id cart_items
      = (0, Msg ''Error applying coupon'')"
    by (simp add: apply_coupon_found early_checks_usage_unreachable)
next
  assume "coupons_collection db = Collection cs
        \<and> find (\<lambda>c. code c = coupon_code \<and> is_active c) cs = Some coupon
        \<and> early_checks db now cart_total user_id coupon = Inr (Passed ())
        \<and> scope coupon \<noteq> Global \<and> cart_items = Some items \<and> items \<noteq> []
        \<and> products_collection db = Unreachable"
  then show "apply_coupon db now cart_total coupon_code user_id cart_items
      = (0, Msg ''Error applying coupon'')"
    by (simp add: apply_coupon_found scope_check_unreachable)
next
  assume "apply_coupon_body db now cart_total coupon_code user_id cart_items = Inl e"
  then show "e = TypeError \<or> coupons_collection db = Unreachable
      \<or> coupon_usage_collection db = Unreachable \<or> products_collection db = Unreachable"
    by (rule apply_coupon_body_fault)
next
  assume "apply_coupon_body db now cart_total coupon_code user_id cart_items = Inl e"
  then show "apply_coupon db now cart_total coupon_code user_id cart_items
      = (0, Msg ''Error applying coupon'')"
    by (simp add: apply_coupon_def)
next
  assume "commission_rules_collection db = Unreachable"
  then show "calculate_commission db order_total sid cat = (10, order_total * 0.1)"
    by (rule calculate_commission_rules_unreachable)
next
  assume "commission_rules_collection db = Collection rs
        \<and> (\<forall>r \<in> set rs. \<not> matches default_rule_query r
               \<and> (case cat of Some c \<Rightarrow> \<not> matches (category_rule_query order_total c) r
                   | None \<Rightarrow> True))
        \<and> seller_profiles_collection db = Unreachable"
  then show "calculate_commission db order_total sid cat = (10, order_total * 0.1)"
    by (blast intro: calculate_commission_sellers_unreachable)
next
  assume "calculate_commission_body db order_total sid cat = Inl e'"
  then show "commission_rules_collection db = Unreachable
      \<or> seller_profiles_collection db = Unreachable"
    by (rule calculate_commission_body_fault)
next
  assume "calculate_commission_body db order_total sid cat = Inl e'"
  then show "calculate_commission db order_total sid cat = (10, order_total * 0.1)"
    by (simp add: calculate_commission_def)
qed

theorem faults_become_defaults_witness:
  "apply_coupon unreachable_store 0 100 ''SAVE'' None None = (0, Msg ''Error applying coupon'')
   \<and> apply_coupon (example_store [base_coupon\<lparr>starts_at := Some (Naive 20)\<rparr>] [] [])
         10 100 ''SAVE'' None None = (0, Msg ''Error applying coupon'')
   \<and> apply_coupon ((example_store [limited_coupon] [] [])\<lparr>coupon_usage_collection := Unreachable\<rparr>)
         0 100 ''SAVE'' (Some ''u1'') None = (0, Msg ''Error applying coupon'')
   \<and> apply_coupon ((example_store [books_coupon] [] [])\<lparr>products_collection := Unreachable\<rparr>)
         0 140 ''SAVE'' None (Some book_cart) = (0, Msg ''Error applying coupon'')
   \<and> calculate_commission unreachable_store 100 ''s1'' (Some ''electronics'') = (10, 10)
   \<and> calculate_commission ((rules_store [] [])\<lparr>seller_profiles_collection := Unreachable\<rparr>)
         100 ''s1'' None = (10, 10)"
proof -
  let ?started = "base_coupon\<lparr>starts_at := Some (Naive 20)\<rparr>"
  let ?db2 = "example_store [?started] [] []"
  let ?db3 = "(example_store [limited_coupon] [] [])\<lparr>coupon_usage_collection := Unreachable\<rparr>"
  let ?db4 = "(example_store [books_coupon] [] [])\<lparr>products_collection := Unreachable\<rparr>"
  let ?db6 = "(rules_store [] [])\<lparr>seller_profiles_collection := Unreachable\<rparr>"
  have h1: "coupons_collection unreachable_store = Unreachable"
    by (simp add: unreachable_store_def)
  have r1: "apply_coupon unreachable_store 0 100 ''SAVE'' None None
      = (0, Msg ''Error applying coupon'')"
    using faults_become_defaults [where db = unreachable_store and now = 0
        and cart_total = 100 and coupon_code = "''SAVE''" and user_id = None
        and cart_items = None] h1
    by blast
  have h2: "coupons_collection ?db2 = Collection [?started]
        \<and> find (\<lambda>c. code c = ''SAVE'' \<and> is_active c) [?started] = Some ?started
        \<and> (starts_at ?started = Some (Naive 20)
            \<or> starts_at ?started = None \<and> expires_at ?started = Some (Naive 0))"
    by (simp add: example_defs)
  have r2: "apply_coupon ?db2 10 100 ''SAVE'' None None = (0, Msg ''Error applying coupon'')"
    using faults_become_defaults [where db = ?db2 and now = 10
        and cart_total = 100 and coupon_code = "''SAVE''" and user_id = None
        and cart_items = None and cs = "[?started]" and coupon = ?started
        and s = 20 and x = 0] h2
    by blast
  have h3: "coupons_collection ?db3 = Collection [limited_coupon]
        \<and> find (\<lambda>c. code c = ''SAVE'' \<and> is_active c) [limited_coupon] = Some limited_coupon
        \<and> starts_at limited_coupon = None \<and> expires_at limited_coupon = None
        \<and> (case usage_limit limited_coupon of
              Some l \<Rightarrow> l = 0 \<or> used_count limited_coupon < l | None \<Rightarrow> True)
        \<and> Some ''u1'' = Some ''u1'' \<and> ''u1'' \<noteq> []
        \<and> usage_per_user limited_coupon = Some 1 \<and> (1::int) \<noteq> 0
        \<and> coupon_usage_collection ?db3 = Unreachable"
    by (simp add: example_defs limited_coupon_def)
  have r3: "apply_coupon ?db3 0 100 ''SAVE'' (Some ''u1'') None
      = (0, Msg ''Error applying coupon'')"
    using faults_become_defaults [where db = ?db3 and now = 0
        and cart_total = 100 and coupon_code = "''SAVE''" and user_id = "Some ''u1''"
        and cart_items = None and cs = "[limited_coupon]" and coupon = limited_coupon
        and u = "''u1''" and n = 1] h3
    by blast
  have h4: "coupons_collection ?db4 = Collection [books_coupon]
        \<and> find (\<lambda>c. code c = ''SAVE'' \<and> is_active c) [books_coupon] = Some books_coupon
        \<and> early_checks ?db4 0 140 None books_coupon = Inr (Passed ())
        \<and> scope books_coupon \<noteq> Global \<and> Some book_cart = Some book_cart \<and> book_cart \<noteq> []
        \<and> products_collection ?db4 = Unreachable"
    by (simp add: example_defs early_checks_def)
  have r4: "apply_coupon ?db4 0 140 ''SAVE'' None (Some book_cart)
      = (0, Msg ''Error applying coupon'')"
    using faults_become_defaults [where db = ?db4 and now = 0
        and cart_total = 140 and coupon_code = "''SAVE''" and user_id = None
        and cart_items = "Some book_cart" and cs = "[books_coupon]" and coupon = books_coupon
        and items = book_cart] h4
    by blast
  have h5: "commission_rules_collection unreachable_store = Unreachable"
    by (simp add: unreachable_store_def)
  have "calculate_commission unreachable_store 100 ''s1'' (Some ''electronics'')
      = (10, 100 * 0.1)"
    using faults_become_defaults [where db = unreachable_store and order_total = 100
        and sid = "''s1''" and cat = "Some ''electronics''"] h5
    by blast
  then have r5: "calculate_commission unreachable_store 100 ''s1'' (Some ''electronics'')
      = (10, 10)"
    by simp
  have h6: "commission_rules_collection ?db6 = Collection []
        \<and> (\<forall>r \<in> set ([]::commission_rule list). \<not> matches default_rule_query r
               \<and> (case None of Some c \<Rightarrow> \<not> matches (category_rule_query 100 c) r
                   | None \<Rightarrow> True))
        \<and> seller_profiles_collection ?db6 = Unreachable"
    by (simp add: rules_store_def)
  have "calculate_commission ?db6 100 ''s1'' None = (10, 100 * 0.1)"
    using faults_become_defaults [where db = ?db6 and order_total = 100
        and sid = "''s1''" and cat = None and rs = "[]"] h6
    by blast
  then have r6: "calculate_commission ?db6 100 ''s1'' None = (10, 10)"
    by simp
  from r1 r2 r3 r4 r5 r6 show ?thesis
    by blast
qed

section \<open>Verification codes\<close>

lemma matches_pair_query [simp]:
  "matches (pair_query i p) r = same_pair i p r"
  by (simp add: matches_def pair_query_def same_pair_def)

lemma matches_live_code_query [simp]:
  "matches (live_code_query i (H c) p now) r = live_match H now i c p r"
  by (auto simp: matches_def live_code_query_def live_match_def same_pair_def)

lemma matches_id_query [simp]:
  "matches (id_query n) r = (record_id r = n)"
  by (simp add: matches_def id_query_def)

lemma update_first_cong: "(\<And>x. P x = Q x) \<Longrightarrow> update_first P f xs = update_first Q f xs"
  by (induction xs) auto

lemma verify_code_collection:
  "verify_code H now (Collection ds) i c p =
     (case find (live_match H now i c p) ds of
        None \<Rightarrow> (False, Collection (update_first (same_pair i p)
                                     (\<lambda>r. r\<lparr>attempts := attempts r + 1\<rparr>) ds))
      | Some rec \<Rightarrow> (True, Collection (update_first (\<lambda>r. record_id r = record_id rec)
                                        (\<lambda>r. r\<lparr>verified := True, verified_at := Some now\<rparr>) ds)))"
  by (simp add: verify_code_def verify_code_body_def find_one_def update_one_def
      cong: find_cong_pred update_first_cong split: option.splits)

lemma verify_code_unreachable:
  "verify_code H now Unreachable i c p = (False, Unreachable)"
  by (simp add: verify_code_def verify_code_body_def find_one_def)

lemma store_verification_code_collection:
  "store_verification_code H now (Collection ds) i c m p =
     (True, Collection (filter (\<lambda>r. \<not> same_pair i p r) ds @
        [new_record H now (fresh_id (filter (\<lambda>r. \<not> same_pair i p r) ds)) i c m p]))"
  by (simp add: store_verification_code_def store_verification_code_body_def delete_many_def
      insert_one_def new_record_def timedelta_minutes_def)

lemma store_verification_code_unreachable:
  "store_verification_code H now Unreachable i c m p = (False, Unreachable)"
  by (simp add: store_verification_code_def store_verification_code_body_def delete_many_def)

lemma find_Some_set: "find P xs = Some x \<Longrightarrow> x \<in> set xs \<and> P x"
  by (induction xs) (auto split: if_splits)

lemma verify_code_success_iff:
  "fst (verify_code H now (Collection ds) i c p) = (\<exists>r \<in> set ds. live_match H now i c p r)"
  by (auto simp: verify_code_collection find_None_iff split: option.splits dest: find_Some_set)

text \<open>
  In a well-formed collection the update by \<^verbatim>\<open>_id\<close> changes the record that was found,
  and an update of the first record of a pair changes every record of the pair.
\<close>

lemma update_first_by_id:
  "distinct (map record_id ds) \<Longrightarrow> find P ds = Some rec \<Longrightarrow>
     update_first (\<lambda>r. record_id r = record_id rec) f ds = update_first P f ds"
proof (induction ds)
  case Nil
  then show ?case by simp
next
  case (Cons d ds)
  show ?case
  proof (cases "P d")
    case True
    with Cons.prems show ?thesis by simp
  next
    case False
    with Cons.prems have "find P ds = Some rec" by simp
    then have "rec \<in> set ds" by (simp add: find_Some_set)
    with Cons.prems have "record_id d \<noteq> record_id rec" by auto
    with False Cons show ?thesis by simp
  qed
qed

lemma map_if_none:
  "\<forall>r \<in> set ds. \<not> P r \<Longrightarrow> map (\<lambda>r. if P r then f r else r) ds = ds"
  by (induction ds) auto

lemma one_per_pair_Cons:
  assumes "one_per_pair (d # ds)"
  shows "one_per_pair ds \<and> (\<forall>r \<in> set ds. \<not> same_pair (record_identifier d) (purpose d) r)"
proof (intro conjI ballI)
  show "one_per_pair ds"
    using assms by (simp add: one_per_pair_def)
next
  fix r
  assume "r \<in> set ds"
  then have mem: "(record_identifier r, purpose r)
      \<in> (\<lambda>r. (record_identifier r, purpose r)) ` set ds"
    by (rule imageI)
  from assms have nin: "(record_identifier d, purpose d)
      \<notin> (\<lambda>r. (record_identifier r, purpose r)) ` set ds"
    by (simp add: one_per_pair_def)
  show "\<not> same_pair (record_identifier d) (purpose d) r"
  proof
    assume "same_pair (record_identifier d) (purpose d) r"
    then have "(record_identifier r, purpose r) = (record_identifier d, purpose d)"
      by (simp add: same_pair_def)
    with mem nin show False by simp
  qed
qed

lemma update_first_pair:
  "one_per_pair ds \<Longrightarrow>
     update_first (same_pair i p) f ds = map (\<lambda>r. if same_pair i p r then f r else r) ds"
proof (induction ds)
  case Nil
  then show ?case by simp
next
  case (Cons d ds)
  from Cons.prems have tl: "one_per_pair ds"
    and others: "\<forall>r \<in> set ds. \<not> same_pair (record_identifier d) (purpose d) r"
    using one_per_pair_Cons by blast+
  show ?case
  proof (cases "same_pair i p d")
    case True
    then have "\<forall>r \<in> set ds. \<not> same_pair i p r"
      using others by (simp add: same_pair_def)
    with True show ?thesis by (simp add: map_if_none)
  next
    case False
    with Cons.IH [OF tl] show ?thesis by simp
  qed
qed

lemma update_first_live:
  "one_per_pair ds \<Longrightarrow> find (live_match H now i c p) ds = Some rec \<Longrightarrow>
     update_first (live_match H now i c p) f ds
       = map (\<lambda>r. if same_pair i p r then f r else r) ds"
proof (induction ds)
  case Nil
  then show ?case by simp
next
  case (Cons d ds)
  from Cons.prems have tl: "one_per_pair ds"
    and others: "\<forall>r \<in> set ds. \<not> same_pair (record_identifier d) (purpose d) r"
    using one_per_pair_Cons by blast+
  show ?case
  proof (cases "live_match H now i c p d")
    case True
    then have "same_pair i p d" by (simp add: live_match_def)
    then have "\<forall>r \<in> set ds. \<not> same_pair i p r"
      using others by (simp add: same_pair_def)
    with True \<open>same_pair i p d\<close> show ?thesis by (simp add: map_if_none)
  next
    case False
    with Cons.prems have found: "find (live_match H now i c p) ds = Some rec" by simp
    then have "rec \<in> set ds" and "same_pair i p rec"
      by (auto dest: find_Some_set simp: live_match_def)
    with others have "\<not> same_pair i p d"
      by (auto simp: same_pair_def)
    with False Cons.IH [OF tl found] show ?thesis by simp
  qed
qed

lemma verify_code_success_state:
  assumes "well_formed ds" and "fst (verify_code H now (Collection ds) i c p)"
  shows "snd (verify_code H now (Collection ds) i c p) =
     Collection (map (\<lambda>r. if same_pair i p r
                           then r\<lparr>verified := True, verified_at := Some now\<rparr> else r) ds)"
proof -
  from assms(2) obtain rec where found: "find (live_match H now i c p) ds = Some rec"
    by (auto simp: verify_code_collection split: option.splits)
  from assms(1) have "distinct (map record_id ds)" and "one_per_pair ds"
    by (simp_all add: well_formed_def)
  then show ?thesis
    using found by (simp add: verify_code_collection update_first_by_id update_first_live)
qed

lemma verify_code_failure_state:
  assumes "well_formed ds" and "\<not> fst (verify_code H now (Collection ds) i c p)"
  shows "snd (verify_code H now (Collection ds) i c p) =
     Collection (map (\<lambda>r. if same_pair i p r
                           then r\<lparr>attempts := attempts r + 1\<rparr> else r) ds)"
proof -
  from assms(2) have "find (live_match H now i c p) ds = None"
    by (auto simp: verify_code_collection split: option.splits)
  moreover from assms(1) have "one_per_pair ds"
    by (simp add: well_formed_def)
  ultimately show ?thesis
    by (simp add: verify_code_collection update_first_pair)
qed

text \<open>No call of \<^verbatim>\<open>verify_code\<close> makes a consumed code live again.\<close>

lemma update_first_verified:
  assumes "\<And>r. verified r \<Longrightarrow> verified (f r)"
    and "\<And>r. record_identifier (f r) = record_identifier r"
    and "\<And>r. purpose (f r) = purpose r"
    and "\<And>r. hashed_code (f r) = hashed_code r"
  shows "list_all (\<lambda>r. same_pair i p r \<and> hashed_code r = h \<longrightarrow> verified r) ds \<Longrightarrow>
         list_all (\<lambda>r. same_pair i p r \<and> hashed_code r = h \<longrightarrow> verified r)
           (update_first P f ds)"
  using assms by (induction ds) (auto simp: same_pair_def)

lemma consumed_verify_code:
  "consumed H i c p coll \<Longrightarrow> consumed H i c p (snd (verify_code H t coll i' c' p'))"
proof (cases coll)
  case Unreachable
  then show ?thesis by (simp add: verify_code_unreachable consumed_def)
next
  case (Collection ds)
  assume "consumed H i c p coll"
  with Collection show ?thesis
    by (auto simp: consumed_def verify_code_collection split: option.splits
        intro!: update_first_verified)
qed

lemma consumed_verify_all:
  "consumed H i c p coll \<Longrightarrow> consumed H i c p (verify_all H coll calls)"
  by (induction calls arbitrary: coll) (auto simp: consumed_verify_code)

lemma consumed_fails:
  "consumed H i c p coll \<Longrightarrow> \<not> fst (verify_code H t coll i c p)"
  by (cases coll)
     (auto simp: consumed_def verify_code_unreachable verify_code_success_iff live_match_def
       list_all_iff)

lemma marked_consumed:
  "list_all (\<lambda>r. same_pair i p r \<and> hashed_code r = h \<longrightarrow> verified r)
     (map (\<lambda>r. if same_pair i p r
               then r\<lparr>verified := True, verified_at := Some now\<rparr> else r) ds)"
  by (induction ds) (auto simp: same_pair_def)

lemma verify_code_consumes:
  assumes "well_formed ds" and "fst (verify_code H now (Collection ds) i c p)"
  shows "consumed H i c p (snd (verify_code H now (Collection ds) i c p))"
  by (simp add: verify_code_success_state [OF assms] consumed_def marked_consumed)

text \<open>
  The invariant holds of the empty collection and both operations keep it, so it holds of
  every collection that the service produces.
\<close>

lemma fresh_id_greater: "r \<in> set ds \<Longrightarrow> record_id r < fresh_id ds"
  by (induction ds) (auto simp: fresh_id_def)

lemma fresh_id_notin: "fresh_id ds \<notin> record_id ` set ds"
  using fresh_id_greater by fastforce

lemma one_per_pair_filter: "one_per_pair ds \<Longrightarrow> one_per_pair (filter P ds)"
  by (simp add: one_per_pair_def distinct_map_filter)

lemma well_formed_after_store:
  assumes "well_formed ds"
  shows "well_formed (after_store H now ds i c m p)"
proof -
  let ?kept = "filter (\<lambda>r. \<not> same_pair i p r) ds"
  from assms have "distinct (map record_id ?kept)"
    by (simp add: well_formed_def distinct_map_filter)
  moreover from assms have "one_per_pair ?kept"
    by (simp add: well_formed_def one_per_pair_filter)
  moreover have "(i, p) \<notin> (\<lambda>r. (record_identifier r, purpose r)) ` set ?kept"
    by (auto simp: same_pair_def)
  ultimately show ?thesis
    using fresh_id_notin [of ?kept]
    by (simp add: well_formed_def after_store_def Let_def new_record_def one_per_pair_def)
qed

lemma map_update_first:
  "(\<And>r. g (f r) = g r) \<Longrightarrow> map g (update_first P f ds) = map g ds"
  by (induction ds) auto

lemma well_formed_verify_code:
  assumes "well_formed ds"
  shows "\<exists>ds'. snd (verify_code H now (Collection ds) i c p) = Collection ds' \<and> well_formed ds'"
  using assms
  by (auto simp: verify_code_collection well_formed_def one_per_pair_def map_update_first
      split: option.splits)

lemma well_formed_empty: "well_formed []"
  by (simp add: well_formed_def one_per_pair_def)

lemma store_verification_code_after:
  "store_verification_code H now (Collection ds) i c m p =
     (True, Collection (after_store H now ds i c m p))"
  by (simp add: store_verification_code_collection after_store_def Let_def)

lemma after_store_pair:
  "filter (same_pair i p) (after_store H now ds i c m p) =
     [new_record H now (fresh_id (filter (\<lambda>r. \<not> same_pair i p r) ds)) i c m p]"
  by (simp add: after_store_def Let_def new_record_def same_pair_def)

lemma verify_after_store_iff:
  "fst (verify_code H t (Collection (after_store H now ds i c m p)) i c' p) =
     (H c' = H c \<and> t < now + 600000000)"
  by (auto simp: verify_code_success_iff after_store_def Let_def live_match_def new_record_def
      same_pair_def)

text \<open>
  C4. On a well-formed collection, \<^verbatim>\<open>verify_code\<close> returns success exactly when some
  stored record belongs to the pair of identifier and purpose, holds the hash of the code,
  is not verified and expires strictly after \<open>now\<close>. On success the record of the pair
  becomes verified, with \<open>verified_at = now\<close>, and nothing else changes; on failure the
  attempts counter of the record of the pair, if there is one, grows by one and nothing
  else changes. After a success, a verify of the same code for the same pair fails at
  every later instant and after any further calls of \<^verbatim>\<open>verify_code\<close>. When every
  record of the pair holding the hash of the code has its expiry at or before \<open>now\<close>,
  the verify fails.
\<close>

theorem verify_code_single_use:
  assumes "well_formed ds"
  shows "fst (verify_code H now (Collection ds) i c p)
           = (\<exists>r \<in> set ds. live_match H now i c p r)
     \<and> (fst (verify_code H now (Collection ds) i c p) \<longrightarrow>
          snd (verify_code H now (Collection ds) i c p) =
            Collection (map (\<lambda>r. if same_pair i p r
                                  then r\<lparr>verified := True, verified_at := Some now\<rparr>
                                  else r) ds))
     \<and> (\<not> fst (verify_code H now (Collection ds) i c p) \<longrightarrow>
          snd (verify_code H now (Collection ds) i c p) =
            Collection (map (\<lambda>r. if same_pair i p r
                                  then r\<lparr>attempts := attempts r + 1\<rparr> else r) ds))
     \<and> (fst (verify_code H now (Collection ds) i c p) \<longrightarrow>
          \<not> fst (verify_code H now'
                  (verify_all H (snd (verify_code H now (Collection ds) i c p)) calls) i c p))
     \<and> ((\<forall>r \<in> set ds. same_pair i p r \<and> hashed_code r = H c \<longrightarrow> code_expires_at r \<le> now)
          \<longrightarrow> \<not> fst (verify_code H now (Collection ds) i c p))"
proof (intro conjI impI)
  show "fst (verify_code H now (Collection ds) i c p)
          = (\<exists>r \<in> set ds. live_match H now i c p r)"
    by (rule verify_code_success_iff)
next
  assume "fst (verify_code H now (Collection ds) i c p)"
  with assms show "snd (verify_code H now (Collection ds) i c p) =
      Collection (map (\<lambda>r. if same_pair i p r
                            then r\<lparr>verified := True, verified_at := Some now\<rparr> else r) ds)"
    by (rule verify_code_success_state)
next
  assume "\<not> fst (verify_code H now (Collection ds) i c p)"
  with assms show "snd (verify_code H now (Collection ds) i c p) =
      Collection (map (\<lambda>r. if same_pair i p r
                            then r\<lparr>attempts := attempts r + 1\<rparr> else r) ds)"
    by (rule verify_code_failure_state)
next
  assume "fst (verify_code H now (Collection ds) i c p)"
  with assms have "consumed H i c p (snd (verify_code H now (Collection ds) i c p))"
    by (rule verify_code_consumes)
  then have "consumed H i c p
      (verify_all H (snd (verify_code H now (Collection ds) i c p)) calls)"
    by (rule consumed_verify_all)
  then show "\<not> fst (verify_code H now'
      (verify_all H (snd (verify_code H now (Collection ds) i c p)) calls) i c p)"
    by (rule consumed_fails)
next
  assume "\<forall>r \<in> set ds. same_pair i p r \<and> hashed_code r = H c \<longrightarrow> code_expires_at r \<le> now"
  then show "\<not> fst (verify_code H now (Collection ds) i c p)"
    by (auto simp: verify_code_success_iff live_match_def)
qed

text \<open>
  C5. On a reachable collection \<^verbatim>\<open>store_verification_code\<close> returns success and leaves
  the collection without its former records of the pair and with one new record at the
  end. The records of the pair are then exactly that one record: it holds the hash of
  the code, expires ten minutes after its creation, is not verified and has no attempts.
  The collection left depends on the code only through its hash, so the code itself is
  not stored. A well-formed collection stays well-formed, so there is at most one record
  for each pair. A verify of a code whose hash is not that of the code just stored fails
  for the pair, at every instant.
\<close>

theorem store_verification_code_supersedes:
  "store_verification_code H now (Collection ds) i c m p
     = (True, Collection (after_store H now ds i c m p))
   \<and> filter (same_pair i p) (after_store H now ds i c m p)
       = [\<lparr>record_id = fresh_id (filter (\<lambda>r. \<not> same_pair i p r) ds),
           record_identifier = i, hashed_code = H c, delivery_method = m, purpose = p,
           created_at = now, code_expires_at = now + timedelta_minutes 10,
           verified = False, verified_at = None, attempts = 0\<rparr>]
   \<and> (H c' = H c \<longrightarrow>
        store_verification_code H now coll i c' m p = store_verification_code H now coll i c m p)
   \<and> (well_formed ds \<longrightarrow> well_formed (after_store H now ds i c m p))
   \<and> (H c' \<noteq> H c \<longrightarrow>
        \<not> fst (verify_code H t
                (snd (store_verification_code H now (Collection ds) i c m p)) i c' p))"
proof (intro conjI impI)
  show "store_verification_code H now (Collection ds) i c m p
          = (True, Collection (after_store H now ds i c m p))"
    by (rule store_verification_code_after)
next
  show "filter (same_pair i p) (after_store H now ds i c m p)
       = [\<lparr>record_id = fresh_id (filter (\<lambda>r. \<not> same_pair i p r) ds),
           record_identifier = i, hashed_code = H c, delivery_method = m, purpose = p,
           created_at = now, code_expires_at = now + timedelta_minutes 10,
           verified = False, verified_at = None, attempts = 0\<rparr>]"
    by (simp add: after_store_pair new_record_def timedelta_minutes_def)
next
  assume "H c' = H c"
  then show "store_verification_code H now coll i c' m p
               = store_verification_code H now coll i c m p"
    by (simp add: store_verification_code_def store_verification_code_body_def)
next
  assume "well_formed ds"
  then show "well_formed (after_store H now ds i c m p)"
    by (rule well_formed_after_store)
next
  assume "H c' \<noteq> H c"
  then show "\<not> fst (verify_code H t
      (snd (store_verification_code H now (Collection ds) i c m p)) i c' p)"
    by (simp add: store_verification_code_after verify_after_store_iff)
qed

theorem verify_code_single_use_witness:
  "fst (verify_code example_hash 5 (Collection example_codes)
          ''a@example.com'' ''123456'' ''verification'')
   \<and> \<not> fst (verify_code example_hash 6
          (snd (verify_code example_hash 5 (Collection example_codes)
                  ''a@example.com'' ''123456'' ''verification''))
          ''a@example.com'' ''123456'' ''verification'')
   \<and> \<not> fst (verify_code example_hash 600000000 (Collection example_codes)
          ''a@example.com'' ''123456'' ''verification'')"
proof -
  have wf: "well_formed example_codes"
    by (simp add: well_formed_def one_per_pair_def example_codes_def)
  have live: "\<exists>r \<in> set example_codes.
      live_match example_hash 5 ''a@example.com'' ''123456'' ''verification'' r"
    by (simp add: example_codes_def new_record_def live_match_def same_pair_def)
  have late: "\<forall>r \<in> set example_codes.
      same_pair ''a@example.com'' ''verification'' r \<and> hashed_code r = example_hash ''123456''
        \<longrightarrow> code_expires_at r \<le> 600000000"
    by (simp add: example_codes_def new_record_def)
  note at_5 = verify_code_single_use [OF wf, where H = example_hash and now = 5
      and i = "''a@example.com''" and c = "''123456''" and p = "''verification''"
      and now' = 6 and calls = "[]"]
  note at_expiry = verify_code_single_use [OF wf, where H = example_hash and now = 600000000
      and i = "''a@example.com''" and c = "''123456''" and p = "''verification''"]
  from at_5 live have ok: "fst (verify_code example_hash 5 (Collection example_codes)
      ''a@example.com'' ''123456'' ''verification'')"
    by blast
  with at_5 have "\<not> fst (verify_code example_hash 6
      (verify_all example_hash
         (snd (verify_code example_hash 5 (Collection example_codes)
                 ''a@example.com'' ''123456'' ''verification'')) [])
      ''a@example.com'' ''123456'' ''verification'')"
    by blast
  then have again: "\<not> fst (verify_code example_hash 6
      (snd (verify_code example_hash 5 (Collection example_codes)
              ''a@example.com'' ''123456'' ''verification''))
      ''a@example.com'' ''123456'' ''verification'')"
    by simp
  from at_expiry late have "\<not> fst (verify_code example_hash 600000000
      (Collection example_codes) ''a@example.com'' ''123456'' ''verification'')"
    by blast
  with ok again show ?thesis by blast
qed

theorem store_verification_code_supersedes_witness:
  "\<not> fst (verify_code example_hash 200
       (snd (store_verification_code example_hash 100
          (snd (store_verification_code example_hash 0 (Collection [])
                  ''a@example.com'' ''111111'' ''email'' ''verification''))
          ''a@example.com'' ''222222'' ''email'' ''verification''))
       ''a@example.com'' ''111111'' ''verification'')
   \<and> well_formed (after_store example_hash 0 [] ''a@example.com'' ''111111'' ''email''
                   ''verification'')"
proof -
  let ?ds = "after_store example_hash 0 [] ''a@example.com'' ''111111'' ''email'' ''verification''"
  note first_store = store_verification_code_supersedes [where H = example_hash and now = 0
      and ds = "[]" and i = "''a@example.com''" and c = "''111111''" and m = "''email''"
      and p = "''verification''" and c' = "''111111''"]
  note second_store = store_verification_code_supersedes [where H = example_hash and now = 100
      and ds = ?ds and i = "''a@example.com''" and c = "''222222''" and m = "''email''"
      and p = "''verification''" and c' = "''111111''" and t = 200]
  from first_store have first: "store_verification_code example_hash 0 (Collection [])
      ''a@example.com'' ''111111'' ''email'' ''verification'' = (True, Collection ?ds)"
    by blast
  have differ: "example_hash ''111111'' \<noteq> example_hash ''222222''"
    by (simp add: example_hash_def)
  with second_store have "\<not> fst (verify_code example_hash 200
      (snd (store_verification_code example_hash 100 (Collection ?ds)
              ''a@example.com'' ''222222'' ''email'' ''verification''))
      ''a@example.com'' ''111111'' ''verification'')"
    by blast
  then have superseded: "\<not> fst (verify_code example_hash 200
      (snd (store_verification_code example_hash 100
         (snd (store_verification_code example_hash 0 (Collection [])
                 ''a@example.com'' ''111111'' ''email'' ''verification''))
         ''a@example.com'' ''222222'' ''email'' ''verification''))
      ''a@example.com'' ''111111'' ''verification'')"
    by (simp add: first)
  have "well_formed []"
    by (rule well_formed_empty)
  with first_store have "well_formed ?ds"
    by blast
  with superseded show ?thesis by blast
qed

end
